theory Spec2Isabelle
  imports Main
begin

section \<open>Exceptions and effectful code\<close>

text \<open>
  Python exceptions are values: a class and what \<open>str()\<close> of the exception gives. The
  classes are the ones the calculator raises or names in a handler (each stands for its
  subclasses too: a \<open>UnicodeEncodeError\<close> is a \<open>ValueError\<close>), one stand-in for every
  other class below \<open>Exception\<close>, and the three classes that derive from
  \<open>BaseException\<close> only, which an \<open>except Exception\<close> clause lets through. \<open>str()\<close> of
  an exception gives its message, or raises: \<open>Unprintable c e\<close> is an exception of class
  \<open>c\<close> whose \<open>__str__\<close> raises \<open>e\<close>.
\<close>

datatype exn_class =
    ValueError | ZeroDivisionError | ImportError | RuntimeError | KeyError | IndexError
  | OSError | OtherException
  | SystemExit | KeyboardInterrupt | GeneratorExit

datatype exn = Exn exn_class string | Unprintable exn_class exn

fun exn_class_of :: "exn \<Rightarrow> exn_class" where
  "exn_class_of (Exn c msg) = c"
| "exn_class_of (Unprintable c e) = c"

text \<open>\<open>str(e)\<close>, also what formatting \<open>{e}\<close> in an f-string calls.\<close>

fun str_of_exn :: "exn \<Rightarrow> exn + string" where
  "str_of_exn (Exn c msg) = Inr msg"
| "str_of_exn (Unprintable c e) = Inl e"

text \<open>\<open>isinstance(e, Exception)\<close>: what \<open>except Exception\<close> matches.\<close>

fun is_Exception :: "exn \<Rightarrow> bool" where
  "is_Exception e = (exn_class_of e \<notin> {SystemExit, KeyboardInterrupt, GeneratorExit})"

text \<open>
  A method that mutates an object takes the object's state and returns the outcome
  (\<open>Inl\<close> an exception that leaves the method, \<open>Inr\<close> the returned value) with the
  state as the method left it: what was assigned before a raise stays assigned.
\<close>

type_synonym ('s, 'a) py = "'s \<Rightarrow> (exn + 'a) \<times> 's"

definition ret :: "'a \<Rightarrow> ('s, 'a) py" where
  "ret x s = (Inr x, s)"

definition raise :: "exn \<Rightarrow> ('s, 'a) py" where
  "raise e s = (Inl e, s)"

text \<open>A call into code that does not touch the state: its outcome is given.\<close>

definition call :: "exn + 'a \<Rightarrow> ('s, 'a) py" where
  "call r s = (r, s)"

definition modify :: "('s \<Rightarrow> 's) \<Rightarrow> ('s, unit) py" where
  "modify f s = (Inr (), f s)"

text \<open>Sequencing: the second statement runs only when the first did not raise.\<close>

definition bnd :: "('s, 'a) py \<Rightarrow> ('a \<Rightarrow> ('s, 'b) py) \<Rightarrow> ('s, 'b) py" where
  "bnd m f s = (case m s of (Inl e, s') \<Rightarrow> (Inl e, s') | (Inr a, s') \<Rightarrow> f a s')"

text \<open>\<open>try: m except Exception as e: h e\<close>.\<close>

definition except_Exception :: "('s, 'a) py \<Rightarrow> (exn \<Rightarrow> ('s, 'a) py) \<Rightarrow> ('s, 'a) py" where
  "except_Exception m h s =
     (case m s of
        (Inl e, s') \<Rightarrow> if is_Exception e then h e s' else (Inl e, s')
      | (Inr a, s') \<Rightarrow> (Inr a, s'))"

text \<open>\<open>try: m except ValueError as e: h e\<close>.\<close>

definition except_ValueError :: "('s, 'a) py \<Rightarrow> (exn \<Rightarrow> ('s, 'a) py) \<Rightarrow> ('s, 'a) py" where
  "except_ValueError m h s =
     (case m s of
        (Inl e, s') \<Rightarrow> if exn_class_of e = ValueError then h e s' else (Inl e, s')
      | (Inr a, s') \<Rightarrow> (Inr a, s'))"

section \<open>Strings\<close>

text \<open>
  Strings are ASCII here. \<open>lower\<close> is \<open>str.lower\<close>, \<open>isspace\<close> is \<open>str.isspace\<close> and
  \<open>split\<close> is \<open>str.split()\<close> with no argument (runs of whitespace separate, no empty
  parts).
\<close>

definition lower_char :: "char \<Rightarrow> char" where
  "lower_char c =
     (case map_of (zip ''ABCDEFGHIJKLMNOPQRSTUVWXYZ'' ''abcdefghijklmnopqrstuvwxyz'') c of
        None \<Rightarrow> c
      | Some d \<Rightarrow> d)"

definition lower :: "string \<Rightarrow> string" where
  "lower s = map lower_char s"

definition isspace :: "char \<Rightarrow> bool" where
  "isspace c = (c \<in> set [CHR '' '', CHR 0x09, CHR 0x0A, CHR 0x0B, CHR 0x0C, CHR 0x0D,
                           CHR 0x1C, CHR 0x1D, CHR 0x1E, CHR 0x1F])"

fun split_acc :: "string \<Rightarrow> string \<Rightarrow> string list" where
  "split_acc cur [] = (if cur = [] then [] else [rev cur])"
| "split_acc cur (c # cs) =
     (if isspace c then (if cur = [] then split_acc [] cs else rev cur # split_acc [] cs)
      else split_acc (c # cur) cs)"

definition split :: "string \<Rightarrow> string list" where
  "split s = split_acc [] s"

definition endswith :: "string \<Rightarrow> string \<Rightarrow> bool" where
  "endswith s suffix = (length suffix \<le> length s \<and> drop (length s - length suffix) s = suffix)"

text \<open>\<open>str(n)\<close> of a natural number, in decimal.\<close>

fun str_of_nat :: "nat \<Rightarrow> string" where
  "str_of_nat n =
     (if n < 10 then [''0123456789'' ! n]
      else str_of_nat (n div 10) @ [''0123456789'' ! (n mod 10)])"

text \<open>\<open>os.path.join\<close> of two components and \<open>os.path.dirname\<close>, as \<open>posixpath\<close> has them.\<close>

definition join :: "string \<Rightarrow> string \<Rightarrow> string" where
  "join a b =
     (if b \<noteq> [] \<and> hd b = CHR ''/'' then b
      else if a = [] \<or> last a = CHR ''/'' then a @ b
      else a @ ''/'' @ b)"

definition rstrip_slash :: "string \<Rightarrow> string" where
  "rstrip_slash s = rev (dropWhile (\<lambda>c. c = CHR ''/'') (rev s))"

definition dirname :: "string \<Rightarrow> string" where
  "dirname p =
     (let head = rev (dropWhile (\<lambda>c. c \<noteq> CHR ''/'') (rev p))
      in if head \<noteq> [] \<and> \<not> list_all (\<lambda>c. c = CHR ''/'') head then rstrip_slash head else head)"

section \<open>Commands\<close>

text \<open>
  What \<open>Command.execute\<close> returns: a float, a string (the string \<open>"EXIT"\<close> is the
  session's end), or another object. Of another object the engine observes three things,
  which \<open>Obj\<close> carries in this order: whether it is an instance of \<open>int\<close> or \<open>float\<close>,
  whether \<open>==\<close> finds it equal to the string \<open>"EXIT"\<close>, and what \<open>str()\<close> of it gives
  (a text, or an exception: \<open>str()\<close> of an \<open>int\<close> of too many digits raises
  \<open>ValueError\<close>).
\<close>

datatype 'f result = Num 'f | Str string | Obj bool bool "exn + string"


text \<open>
  A \<open>Command\<close> object is the behaviour of its three methods. A method of a third-party
  command can raise, so each is an outcome. \<open>execute\<close> is handed a list that it may
  change in place: \<open>args_after\<close> is the list as \<open>execute\<close> leaves it, whether it returns
  or raises. \<open>truthy\<close> is what \<open>bool()\<close> of the object gives (true unless its class
  defines \<open>__bool__\<close> or \<open>__len__\<close> otherwise).
\<close>

record 'f command =
  get_name :: "exn + string"
  get_help :: "exn + string"
  execute :: "string list \<Rightarrow> exn + 'f result"
  args_after :: "string list \<Rightarrow> string list"
  truthy :: bool

section \<open>Plugins\<close>

text \<open>
  A \<open>Plugin\<close> instance, likewise: the four abstract getters and the two hooks, whose
  defaults in the base class return \<open>True\<close>.
\<close>

record 'f plugin =
  plugin_get_name :: "exn + string"
  get_version :: "exn + string"
  get_description :: "exn + string"
  get_commands :: "exn + 'f command list"
  initialize :: "exn + bool"
  cleanup :: "exn + bool"

text \<open>
  A loaded module is the list of its attributes in the order of \<open>dir(module)\<close>: a class
  below \<open>Plugin\<close> (with what calling it with no argument does), the class \<open>Plugin\<close>
  itself (a plugin module imports it), anything else, or an attribute whose \<open>getattr\<close>
  raises.
\<close>

datatype 'f member =
    PluginSubclass "exn + 'f plugin"
  | PluginBase
  | OtherAttr
  | AttrRaises exn

type_synonym 'f pymodule = "(string \<times> 'f member) list"

text \<open>
  The file system, the import machinery and the standard output, which the program
  only calls. \<open>spec_from_file_location\<close> is \<open>None\<close> when the spec or its loader is
  missing, and otherwise what \<open>module_from_spec\<close> and \<open>exec_module\<close> give;
  \<open>import_module\<close> takes the directory put first on \<open>sys.path\<close> for the import (and
  taken off after it on every path) and the module's name. \<open>stdout_print\<close> is
  \<open>print(text)\<close>: it returns, or raises (a closed or broken stream, a text that the
  stream cannot encode). \<open>py_repr\<close> is \<open>repr\<close> of a string, which the message of a
  \<open>KeyError\<close> is made of.
\<close>

record 'f world =
  os_path_exists :: "string \<Rightarrow> bool"
  os_path_isdir :: "string \<Rightarrow> bool"
  os_path_isfile :: "string \<Rightarrow> bool"
  os_listdir :: "string \<Rightarrow> exn + string list"
  spec_from_file_location :: "string \<Rightarrow> string \<Rightarrow> (exn + 'f pymodule) option"
  import_module :: "string \<Rightarrow> string \<Rightarrow> exn + 'f pymodule"
  stdout_print :: "string \<Rightarrow> exn + unit"
  py_repr :: "string \<Rightarrow> string"

record plugin_meta =
  info_name :: string
  info_version :: string
  info_description :: string
  info_path :: string

text \<open>
  The two lifecycle hooks of a plugin may have effects of their own. The manager's state
  carries, beside the four attributes of the class, the hook calls made so far in order
  (\<open>hook_calls\<close>, not an attribute of the class), each with the name the plugin was
  loaded under: a call is recorded whether the hook returns or raises.
\<close>

datatype hook_call = Initialize string | Cleanup string

record 'f plugin_manager =
  plugin_dirs :: "string list"
  loaded_plugins :: "string \<rightharpoonup> 'f plugin"
  plugin_commands :: "string \<rightharpoonup> 'f command"
  plugin_info :: "string \<rightharpoonup> plugin_meta"
  hook_calls :: "hook_call list"

definition call_hook :: "hook_call \<Rightarrow> exn + 'a \<Rightarrow> ('f plugin_manager, 'a) py" where
  "call_hook h r s = (r, s\<lparr>hook_calls := hook_calls s @ [h]\<rparr>)"

subsection \<open>Discovery\<close>

fun scan_items :: "'f world \<Rightarrow> string \<Rightarrow> string list \<Rightarrow> (string \<times> string) list" where
  "scan_items w plugin_dir [] = []"
| "scan_items w plugin_dir (item # items) =
     (let item_path = join plugin_dir item in
      if endswith item ''.py'' \<and> item \<noteq> ''__init__.py''
      then (take (length item - 3) item, item_path) # scan_items w plugin_dir items
      else if os_path_isdir w item_path
      then (if os_path_exists w (join item_path ''__init__.py'')
            then (item, item_path) # scan_items w plugin_dir items
            else scan_items w plugin_dir items)
      else scan_items w plugin_dir items)"

fun discover_dirs :: "'f world \<Rightarrow> string list \<Rightarrow> exn + (string \<times> string) list" where
  "discover_dirs w [] = Inr []"
| "discover_dirs w (plugin_dir # dirs) =
     (if \<not> os_path_exists w plugin_dir then discover_dirs w dirs
      else (case os_listdir w plugin_dir of
              Inl e \<Rightarrow> Inl e
            | Inr items \<Rightarrow>
                (case discover_dirs w dirs of
                   Inl e \<Rightarrow> Inl e
                 | Inr rest \<Rightarrow> Inr (scan_items w plugin_dir items @ rest))))"

definition discover_plugins :: "'f world \<Rightarrow> ('f plugin_manager, (string \<times> string) list) py" where
  "discover_plugins w s = (discover_dirs w (plugin_dirs s), s)"

subsection \<open>Loading\<close>

definition load_module :: "'f world \<Rightarrow> string \<Rightarrow> string \<Rightarrow> exn + 'f pymodule" where
  "load_module w plugin_name plugin_path =
     (if os_path_isfile w plugin_path
      then (case spec_from_file_location w plugin_name plugin_path of
              None \<Rightarrow> Inl (Exn ImportError (''Could not load spec for '' @ plugin_name))
            | Some loaded \<Rightarrow> loaded)
      else import_module w (dirname plugin_path) plugin_name)"

fun find_plugin_class :: "'f pymodule \<Rightarrow> exn + (exn + 'f plugin) option" where
  "find_plugin_class [] = Inr None"
| "find_plugin_class ((attr_name, PluginSubclass cls) # attrs) = Inr (Some cls)"
| "find_plugin_class ((attr_name, AttrRaises e) # attrs) = Inl e"
| "find_plugin_class ((attr_name, attr) # attrs) = find_plugin_class attrs"

fun register_commands :: "'f command list \<Rightarrow> ('f plugin_manager, unit) py" where
  "register_commands [] s = (Inr (), s)"
| "register_commands (command # commands) s =
     (case get_name command of
        Inl e \<Rightarrow> (Inl e, s)
      | Inr command_name \<Rightarrow>
          register_commands commands
            (s\<lparr>plugin_commands := (plugin_commands s)(command_name \<mapsto> command)\<rparr>))"

text \<open>
  The body of the \<open>try\<close> of \<open>load_plugin\<close>, statement by statement; the last one
  prints the name and the version, which it asks the plugin for again.
\<close>

definition load_plugin_try :: "'f world \<Rightarrow> string \<Rightarrow> string \<Rightarrow> ('f plugin_manager, bool) py" where
  "load_plugin_try w plugin_name plugin_path =
     bnd (call (load_module w plugin_name plugin_path)) (\<lambda>modl.
     bnd (call (find_plugin_class modl)) (\<lambda>plugin_class.
     case plugin_class of
       None \<Rightarrow> raise (Exn ImportError (''No Plugin class found in '' @ plugin_name))
     | Some cls \<Rightarrow>
     bnd (call cls) (\<lambda>plugin_instance.
     bnd (call_hook (Initialize plugin_name) (initialize plugin_instance)) (\<lambda>initialized.
     if \<not> initialized
     then raise (Exn RuntimeError (''Failed to initialize plugin '' @ plugin_name))
     else
     bnd (modify (\<lambda>s. s\<lparr>loaded_plugins := (loaded_plugins s)(plugin_name \<mapsto> plugin_instance)\<rparr>)) (\<lambda>_.
     bnd (call (plugin_get_name plugin_instance)) (\<lambda>name.
     bnd (call (get_version plugin_instance)) (\<lambda>version.
     bnd (call (get_description plugin_instance)) (\<lambda>description.
     bnd (modify (\<lambda>s. s\<lparr>plugin_info := (plugin_info s)(plugin_name \<mapsto>
            \<lparr>info_name = name, info_version = version,
             info_description = description, info_path = plugin_path\<rparr>)\<rparr>)) (\<lambda>_.
     bnd (call (get_commands plugin_instance)) (\<lambda>commands.
     bnd (register_commands commands) (\<lambda>_.
     bnd (call (plugin_get_name plugin_instance)) (\<lambda>shown_name.
     bnd (call (get_version plugin_instance)) (\<lambda>shown_version.
     bnd (call (stdout_print w (''Loaded plugin: '' @ shown_name @ '' v'' @ shown_version))) (\<lambda>_.
     ret True))))))))))))))"

text \<open>
  The handler of \<open>load_plugin\<close>: it formats the exception into a message and prints it,
  outside any \<open>try\<close>, then returns \<open>False\<close>.
\<close>

definition load_plugin_except :: "'f world \<Rightarrow> string \<Rightarrow> exn \<Rightarrow> ('f plugin_manager, bool) py" where
  "load_plugin_except w plugin_name e =
     bnd (call (str_of_exn e)) (\<lambda>msg.
     bnd (call (stdout_print w (''Failed to load plugin '' @ plugin_name @ '': '' @ msg))) (\<lambda>_.
     ret False))"

definition load_plugin :: "'f world \<Rightarrow> string \<Rightarrow> string \<Rightarrow> ('f plugin_manager, bool) py" where
  "load_plugin w plugin_name plugin_path =
     except_Exception (load_plugin_try w plugin_name plugin_path)
       (load_plugin_except w plugin_name)"

fun load_each :: "'f world \<Rightarrow> (string \<times> string) list \<Rightarrow> (string \<rightharpoonup> bool) \<Rightarrow>
    ('f plugin_manager, string \<rightharpoonup> bool) py" where
  "load_each w [] results s = (Inr results, s)"
| "load_each w ((plugin_name, plugin_path) # discovered) results s =
     (case load_plugin w plugin_name plugin_path s of
        (Inl e, s') \<Rightarrow> (Inl e, s')
      | (Inr loaded, s') \<Rightarrow> load_each w discovered (results(plugin_name \<mapsto> loaded)) s')"

definition load_all_plugins :: "'f world \<Rightarrow> ('f plugin_manager, string \<rightharpoonup> bool) py" where
  "load_all_plugins w =
     bnd (discover_plugins w) (\<lambda>discovered_plugins. load_each w discovered_plugins Map.empty)"

subsection \<open>Unloading\<close>

fun remove_commands :: "'f command list \<Rightarrow> ('f plugin_manager, unit) py" where
  "remove_commands [] s = (Inr (), s)"
| "remove_commands (command # commands) s =
     (case get_name command of
        Inl e \<Rightarrow> (Inl e, s)
      | Inr command_name \<Rightarrow>
          remove_commands commands
            (if command_name \<in> dom (plugin_commands s)
             then s\<lparr>plugin_commands := (plugin_commands s)(command_name := None)\<rparr>
             else s))"

text \<open>\<open>del d[k]\<close>: a \<open>KeyError\<close> of the key when it is absent.\<close>

definition del_loaded_plugins :: "'f world \<Rightarrow> string \<Rightarrow> ('f plugin_manager, unit) py" where
  "del_loaded_plugins w k s =
     (if k \<in> dom (loaded_plugins s)
      then (Inr (), s\<lparr>loaded_plugins := (loaded_plugins s)(k := None)\<rparr>)
      else (Inl (Exn KeyError (py_repr w k)), s))"

definition del_plugin_info :: "'f world \<Rightarrow> string \<Rightarrow> ('f plugin_manager, unit) py" where
  "del_plugin_info w k s =
     (if k \<in> dom (plugin_info s)
      then (Inr (), s\<lparr>plugin_info := (plugin_info s)(k := None)\<rparr>)
      else (Inl (Exn KeyError (py_repr w k)), s))"

definition unload_plugin_try :: "'f world \<Rightarrow> string \<Rightarrow> 'f plugin \<Rightarrow> ('f plugin_manager, bool) py" where
  "unload_plugin_try w plugin_name plugin =
     bnd (call_hook (Cleanup plugin_name) (cleanup plugin)) (\<lambda>_.
     bnd (call (get_commands plugin)) (\<lambda>commands.
     bnd (remove_commands commands) (\<lambda>_.
     bnd (del_loaded_plugins w plugin_name) (\<lambda>_.
     bnd (del_plugin_info w plugin_name) (\<lambda>_.
     ret True)))))"

text \<open>The handler of \<open>unload_plugin\<close>, which prints like the one of \<open>load_plugin\<close>.\<close>

definition unload_plugin_except :: "'f world \<Rightarrow> string \<Rightarrow> exn \<Rightarrow> ('f plugin_manager, bool) py" where
  "unload_plugin_except w plugin_name e =
     bnd (call (str_of_exn e)) (\<lambda>msg.
     bnd (call (stdout_print w (''Error unloading plugin '' @ plugin_name @ '': '' @ msg))) (\<lambda>_.
     ret False))"

definition unload_plugin :: "'f world \<Rightarrow> string \<Rightarrow> ('f plugin_manager, bool) py" where
  "unload_plugin w plugin_name s =
     (case loaded_plugins s plugin_name of
        None \<Rightarrow> (Inr False, s)
      | Some plugin \<Rightarrow>
          except_Exception (unload_plugin_try w plugin_name plugin)
            (unload_plugin_except w plugin_name) s)"

definition get_plugin_commands :: "'f plugin_manager \<Rightarrow> (string \<rightharpoonup> 'f command)" where
  "get_plugin_commands s = plugin_commands s"

definition get_plugin_info :: "'f plugin_manager \<Rightarrow> (string \<rightharpoonup> plugin_meta)" where
  "get_plugin_info s = plugin_info s"

text \<open>\<open>PluginManager(plugin_dirs)\<close>: the given directories, then the built-in one.\<close>

definition PluginManager :: "string list \<Rightarrow> string \<Rightarrow> 'f plugin_manager" where
  "PluginManager dirs default_plugin_dir =
     \<lparr>plugin_dirs = dirs @ [default_plugin_dir], loaded_plugins = Map.empty,
      plugin_commands = Map.empty, plugin_info = Map.empty, hook_calls = []\<rparr>"

section \<open>Built-in commands\<close>

text \<open>
  Python's \<open>float\<close> is a type parameter \<open>'f\<close> with its operations: \<open>str_to_float\<close> is
  \<open>float(s)\<close> on a string (\<open>Inl\<close> the message of the \<open>ValueError\<close> it raises),
  \<open>fadd\<close>, \<open>fsub\<close>, \<open>fmul\<close> are \<open>+\<close>, \<open>-\<close>, \<open>*\<close>, \<open>ftruediv\<close> is \<open>/\<close> on a divisor
  that is not zero, \<open>is_zero y\<close> is \<open>y == 0.0\<close>, when \<open>/\<close> raises, and \<open>float_str\<close>
  is \<open>str()\<close> of a float, which never raises.
\<close>

record 'f float_ops =
  str_to_float :: "string \<Rightarrow> string + 'f"
  fadd :: "'f \<Rightarrow> 'f \<Rightarrow> 'f"
  fsub :: "'f \<Rightarrow> 'f \<Rightarrow> 'f"
  fmul :: "'f \<Rightarrow> 'f \<Rightarrow> 'f"
  ftruediv :: "'f \<Rightarrow> 'f \<Rightarrow> 'f"
  is_zero :: "'f \<Rightarrow> bool"
  float_str :: "'f \<Rightarrow> string"

definition py_float :: "'f float_ops \<Rightarrow> string \<Rightarrow> exn + 'f" where
  "py_float fl s = (case str_to_float fl s of Inl msg \<Rightarrow> Inl (Exn ValueError msg) | Inr x \<Rightarrow> Inr x)"

text \<open>The four lambdas of \<open>_setup_basic_commands\<close>.\<close>

definition add_func :: "'f float_ops \<Rightarrow> 'f \<Rightarrow> 'f \<Rightarrow> exn + 'f" where
  "add_func fl x y = Inr (fadd fl x y)"

definition subtract_func :: "'f float_ops \<Rightarrow> 'f \<Rightarrow> 'f \<Rightarrow> exn + 'f" where
  "subtract_func fl x y = Inr (fsub fl x y)"

definition multiply_func :: "'f float_ops \<Rightarrow> 'f \<Rightarrow> 'f \<Rightarrow> exn + 'f" where
  "multiply_func fl x y = Inr (fmul fl x y)"

definition divide_func :: "'f float_ops \<Rightarrow> 'f \<Rightarrow> 'f \<Rightarrow> exn + 'f" where
  "divide_func fl x y =
     (if is_zero fl y then Inl (Exn ZeroDivisionError ''float division by zero'')
      else Inr (ftruediv fl x y))"

text \<open>The body of the \<open>try\<close> of \<open>ArithmeticCommand.execute\<close>, then the method.\<close>

definition arith_try :: "'f float_ops \<Rightarrow> ('f \<Rightarrow> 'f \<Rightarrow> exn + 'f) \<Rightarrow> string list \<Rightarrow> exn + 'f" where
  "arith_try fl func args =
     (case py_float fl (args ! 0) of
        Inl e \<Rightarrow> Inl e
      | Inr num1 \<Rightarrow>
          (case py_float fl (args ! 1) of
             Inl e \<Rightarrow> Inl e
           | Inr num2 \<Rightarrow> func num1 num2))"

definition arith_execute ::
    "'f float_ops \<Rightarrow> string \<Rightarrow> ('f \<Rightarrow> 'f \<Rightarrow> exn + 'f) \<Rightarrow> string list \<Rightarrow> exn + 'f result" where
  "arith_execute fl operation func args =
     (if length args \<noteq> 2
      then Inl (Exn ValueError (operation @ '' requires exactly 2 arguments''))
      else (case arith_try fl func args of
              Inr v \<Rightarrow> Inr (Num v)
            | Inl exc \<Rightarrow>
                if exn_class_of exc = ValueError
                then (case str_of_exn exc of
                        Inl e \<Rightarrow> Inl e
                      | Inr msg \<Rightarrow> Inl (Exn ValueError (''Invalid number format: '' @ msg)))
                else if exn_class_of exc = ZeroDivisionError
                then Inl (Exn ValueError ''Division by zero is not allowed'')
                else Inl exc))"

definition ArithmeticCommand ::
    "'f float_ops \<Rightarrow> string \<Rightarrow> ('f \<Rightarrow> 'f \<Rightarrow> exn + 'f) \<Rightarrow> 'f command" where
  "ArithmeticCommand fl operation func =
     \<lparr>get_name = Inr (lower operation),
      get_help = Inr (lower operation @ '' <number1> <number2> - Perform '' @ operation),
      execute = arith_execute fl operation func,
      args_after = (\<lambda>args. args), truthy = True\<rparr>"

definition ExitCommand :: "'f command" where
  "ExitCommand =
     \<lparr>get_name = Inr ''exit'',
      get_help = Inr ''exit/quit - Exit the calculator'',
      execute = (\<lambda>args. Inr (Str ''EXIT'')),
      args_after = (\<lambda>args. args), truthy = True\<rparr>"

text \<open>
  \<open>HelpCommand\<close> and \<open>MenuCommand\<close> hold a reference to the registry (and the plugin
  manager) and render text from it when executed. What they render is given here as
  \<open>help_execute\<close> and \<open>menu_execute\<close>; their names and help lines are the source's.
\<close>

definition HelpCommand :: "(string list \<Rightarrow> exn + 'f result) \<Rightarrow> 'f command" where
  "HelpCommand help_execute =
     \<lparr>get_name = Inr ''help'',
      get_help = Inr ''help [command] - Show help information'',
      execute = help_execute,
      args_after = (\<lambda>args. args), truthy = True\<rparr>"

definition MenuCommand :: "(string list \<Rightarrow> exn + 'f result) \<Rightarrow> 'f command" where
  "MenuCommand menu_execute =
     \<lparr>get_name = Inr ''menu'',
      get_help = Inr ''menu - Display all available commands and plugins'',
      execute = menu_execute,
      args_after = (\<lambda>args. args), truthy = True\<rparr>"

section \<open>The command registry\<close>

type_synonym 'f commands = "string \<rightharpoonup> 'f command"

definition register_command :: "'f command \<Rightarrow> ('f commands, unit) py" where
  "register_command command commands =
     (case get_name command of
        Inl e \<Rightarrow> (Inl e, commands)
      | Inr command_name \<Rightarrow> (Inr (), commands(command_name \<mapsto> command)))"

definition get_command :: "'f commands \<Rightarrow> string \<Rightarrow> 'f command option" where
  "get_command commands name = commands (lower name)"

definition setup_basic_commands ::
    "'f float_ops \<Rightarrow> (string list \<Rightarrow> exn + 'f result) \<Rightarrow> ('f commands, unit) py" where
  "setup_basic_commands fl help_execute =
     bnd (register_command (ArithmeticCommand fl ''add'' (add_func fl))) (\<lambda>_.
     bnd (register_command (ArithmeticCommand fl ''subtract'' (subtract_func fl))) (\<lambda>_.
     bnd (register_command (ArithmeticCommand fl ''multiply'' (multiply_func fl))) (\<lambda>_.
     bnd (register_command (ArithmeticCommand fl ''divide'' (divide_func fl))) (\<lambda>_.
     bnd (register_command (HelpCommand help_execute)) (\<lambda>_.
     bnd (register_command ExitCommand) (\<lambda>_.
     modify (\<lambda>commands. commands(''quit'' \<mapsto> ExitCommand))))))))"

text \<open>\<open>CommandRegistry()\<close>: the dictionary after \<open>_setup_basic_commands\<close>.\<close>

definition CommandRegistry ::
    "'f float_ops \<Rightarrow> (string list \<Rightarrow> exn + 'f result) \<Rightarrow> 'f commands" where
  "CommandRegistry fl help_execute = snd (setup_basic_commands fl help_execute Map.empty)"

record 'f enhanced_registry =
  commands :: "'f commands"
  plugin_manager :: "'f plugin_manager"

text \<open>
  \<open>EnhancedCommandRegistry._setup_plugin_commands\<close>: load every plugin, copy each item
  of the manager's command dictionary into the registry under the same key, register the
  menu command, and print how many of the candidates loaded when there was one at least.
\<close>

definition loading_summary :: "(string \<rightharpoonup> bool) \<Rightarrow> string" where
  "loading_summary load_results =
     ''Plugin system initialized: '' @ str_of_nat (card {k. load_results k = Some True}) @
     ''/'' @ str_of_nat (card (dom load_results)) @ '' plugins loaded''"

definition setup_plugin_commands ::
    "'f world \<Rightarrow> (string list \<Rightarrow> exn + 'f result) \<Rightarrow> ('f enhanced_registry, unit) py" where
  "setup_plugin_commands w menu_execute r =
     (case load_all_plugins w (plugin_manager r) of
        (Inl e, pm) \<Rightarrow> (Inl e, r\<lparr>plugin_manager := pm\<rparr>)
      | (Inr load_results, pm) \<Rightarrow>
          (case register_command (MenuCommand menu_execute) (commands r ++ get_plugin_commands pm) of
             (Inl e, cs) \<Rightarrow> (Inl e, \<lparr>commands = cs, plugin_manager = pm\<rparr>)
           | (Inr u, cs) \<Rightarrow>
               (if card (dom load_results) > 0
                then stdout_print w (loading_summary load_results)
                else Inr (),
                \<lparr>commands = cs, plugin_manager = pm\<rparr>)))"

definition EnhancedCommandRegistry ::
    "'f float_ops \<Rightarrow> 'f world \<Rightarrow> string \<Rightarrow> (string list \<Rightarrow> exn + 'f result) \<Rightarrow>
     (string list \<Rightarrow> exn + 'f result) \<Rightarrow> (exn + unit) \<times> 'f enhanced_registry" where
  "EnhancedCommandRegistry fl w default_plugin_dir help_execute menu_execute =
     setup_plugin_commands w menu_execute
       \<lparr>commands = CommandRegistry fl help_execute,
        plugin_manager = PluginManager [] default_plugin_dir\<rparr>"

section \<open>The REPL engine\<close>











section \<open>Vocabulary of the properties\<close>

text \<open>
  Among the commands of a list, the one registered last under the name \<open>k\<close>: the last
  of those whose \<open>get_name()\<close> is \<open>k\<close>.
\<close>

definition last_named :: "string \<Rightarrow> 'f command list \<Rightarrow> 'f command option" where
  "last_named k cmds =
     (case filter (\<lambda>c. get_name c = Inr k) cmds of
        [] \<Rightarrow> None
      | c # cs \<Rightarrow> Some (last (c # cs)))"

text \<open>
  The commands that the plugin of a candidate reports: \<open>get_commands()\<close> of the instance
  that \<open>load_plugin\<close> creates from the candidate's module.
\<close>

definition reported_commands :: "'f world \<Rightarrow> string \<times> string \<Rightarrow> 'f command list" where
  "reported_commands w cand =
     (case load_module w (fst cand) (snd cand) of
        Inl e \<Rightarrow> []
      | Inr modl \<Rightarrow>
          (case find_plugin_class modl of
             Inr (Some (Inr plugin_instance)) \<Rightarrow>
               (case get_commands plugin_instance of Inl e \<Rightarrow> [] | Inr cmds \<Rightarrow> cmds)
           | _ \<Rightarrow> []))"

text \<open>
  The commands that the registration loop stores: all of them, or those before the
  first whose \<open>get_name()\<close> raises. And the commands that \<open>load_plugin\<close> stores for
  a candidate: those of its plugin's \<open>get_commands()\<close> that the loop stores when the load
  gets as far as the loop, none when it fails before.
\<close>

fun registered_prefix :: "'f command list \<Rightarrow> 'f command list" where
  "registered_prefix [] = []"
| "registered_prefix (c # cs) =
     (case get_name c of Inl e \<Rightarrow> [] | Inr k \<Rightarrow> c # registered_prefix cs)"

definition registered_commands :: "'f world \<Rightarrow> string \<times> string \<Rightarrow> 'f command list" where
  "registered_commands w cand =
     (case load_module w (fst cand) (snd cand) of
        Inl e \<Rightarrow> []
      | Inr modl \<Rightarrow>
          (case find_plugin_class modl of
             Inr (Some (Inr plugin_instance)) \<Rightarrow>
               (case (initialize plugin_instance, plugin_get_name plugin_instance,
                      get_version plugin_instance, get_description plugin_instance,
                      get_commands plugin_instance) of
                  (Inr True, Inr name, Inr version, Inr description, Inr cmds) \<Rightarrow>
                    registered_prefix cmds
                | _ \<Rightarrow> [])
           | _ \<Rightarrow> []))"

text \<open>
  An exception that the handler of \<open>load_plugin\<close> catches and reports: an instance of
  \<open>Exception\<close>, whose \<open>str()\<close> returns, and such that the message made of it is
  printed.
\<close>

definition load_failure_reported :: "'f world \<Rightarrow> string \<Rightarrow> exn \<Rightarrow> bool" where
  "load_failure_reported w plugin_name e =
     (is_Exception e \<and>
      (case str_of_exn e of
         Inl e' \<Rightarrow> False
       | Inr msg \<Rightarrow> stdout_print w (''Failed to load plugin '' @ plugin_name @ '': '' @ msg) = Inr ()))"

section \<open>Example plugins\<close>

text \<open>
  A plugin directory \<open>/plugins\<close> holding the given single-file modules, each with what
  executing it gives, and nothing else; a standard output that prints every text.
\<close>

definition plugins_world :: "(string \<times> (exn + int pymodule)) list \<Rightarrow> int world" where
  "plugins_world files =
     \<lparr>os_path_exists = (\<lambda>p. p = ''/plugins'' \<or> p \<in> set (map (\<lambda>f. join ''/plugins'' (fst f)) files)),
      os_path_isdir = (\<lambda>p. p = ''/plugins''),
      os_path_isfile = (\<lambda>p. p \<in> set (map (\<lambda>f. join ''/plugins'' (fst f)) files)),
      os_listdir = (\<lambda>p. if p = ''/plugins'' then Inr (map fst files) else Inl (Exn OSError p)),
      spec_from_file_location =
        (\<lambda>n p. map_of (map (\<lambda>f. (join ''/plugins'' (fst f), snd f)) files) p),
      import_module = (\<lambda>d n. Inl (Exn ImportError (''No module named '' @ n))),
      stdout_print = (\<lambda>text. Inr ()),
      py_repr = (\<lambda>k. [CHR 0x27] @ k @ [CHR 0x27])\<rparr>"

text \<open>A module that imports \<open>Plugin\<close> and defines one plugin class.\<close>

definition module_with :: "exn + int plugin \<Rightarrow> int pymodule" where
  "module_with cls = [(''Plugin'', PluginBase), (''ThePlugin'', PluginSubclass cls)]"

definition named_command :: "string \<Rightarrow> string \<Rightarrow> int command" where
  "named_command name help =
     \<lparr>get_name = Inr name, get_help = Inr help, execute = (\<lambda>args. Inr (Str name)),
      args_after = (\<lambda>args. args), truthy = True\<rparr>"

text \<open>A plugin with the default hooks of the base class.\<close>

definition plain_plugin :: "string \<Rightarrow> int command list \<Rightarrow> int plugin" where
  "plain_plugin name cmds =
     \<lparr>plugin_get_name = Inr name, get_version = Inr ''1.0.0'',
      get_description = Inr name, get_commands = Inr cmds,
      initialize = Inr True, cleanup = Inr True\<rparr>"

text \<open>The plugin of the repository's test \<open>test_plugin_discovery\<close>.\<close>

definition test_plugin :: "int plugin" where
  "test_plugin =
     (plain_plugin ''Test Plugin'' [named_command ''test'' ''test command''])
       \<lparr>get_description := Inr ''Test plugin''\<rparr>"

definition manager0 :: "int plugin_manager" where
  "manager0 = PluginManager [] ''/plugins''"

text \<open>Plugins whose hooks fail in the ways the properties are about.\<close>

definition quitting_plugin :: "int plugin" where
  "quitting_plugin = (plain_plugin ''Quitter'' [])\<lparr>initialize := Inl (Exn SystemExit ''1'')\<rparr>"

definition sulking_plugin :: "int plugin" where
  "sulking_plugin = (plain_plugin ''Sulker'' [named_command ''sulk'' ''sulk''])\<lparr>initialize := Inr False\<rparr>"

definition refusing_plugin :: "int plugin" where
  "refusing_plugin = (plain_plugin ''Refuser'' [named_command ''refuse'' ''refuse''])\<lparr>cleanup := Inr False\<rparr>"

definition stubborn_plugin :: "int plugin" where
  "stubborn_plugin =
     (plain_plugin ''Stubborn'' [named_command ''stuck'' ''stuck''])\<lparr>cleanup := Inl (Exn RuntimeError ''busy'')\<rparr>"

text \<open>
  A plugin whose second command has a \<open>get_name()\<close> that raises: its load fails after
  the first command is stored.
\<close>

definition halfway_plugin :: "int plugin" where
  "halfway_plugin =
     plain_plugin ''Halfway''
       [named_command ''mode'' ''mode of Halfway'',
        (named_command ''range'' ''range'')\<lparr>get_name := Inl (Exn RuntimeError ''no name'')\<rparr>]"

text \<open>Two plugins that both contribute a command named \<open>mean\<close>.\<close>

definition stats_a :: "int plugin" where
  "stats_a = plain_plugin ''Stats A'' [named_command ''mean'' ''mean of A'', named_command ''median'' ''median of A'']"

definition stats_b :: "int plugin" where
  "stats_b = plain_plugin ''Stats B'' [named_command ''mean'' ''mean of B'', named_command ''mode'' ''mode of B'']"

definition stats_world :: "int world" where
  "stats_world =
     plugins_world [(''stats_a.py'', Inr (module_with (Inr stats_a))),
                    (''stats_b.py'', Inr (module_with (Inr stats_b)))]"

definition mixed_world :: "int world" where
  "mixed_world =
     plugins_world [(''stats_a.py'', Inr (module_with (Inr stats_a))),
                    (''stats_b.py'', Inr (module_with (Inr stats_b))),
                    (''halfway.py'', Inr (module_with (Inr halfway_plugin)))]"

text \<open>A plugin whose command reports a name with upper-case letters.\<close>

definition shouting_plugin :: "int plugin" where
  "shouting_plugin = plain_plugin ''Shouting'' [named_command ''Mean2'' ''Mean2 <numbers>'']"

text \<open>
  Three candidates that all fail to load: a module whose import raises, a module with
  no plugin class, and a plugin whose \<open>initialize()\<close> returns false.
\<close>

definition failing_world :: "int world" where
  "failing_world =
     plugins_world [(''broken.py'', Inl (Exn ImportError ''No module named numpy'')),
                    (''empty.py'', Inr [(''Plugin'', PluginBase), (''helper'', OtherAttr)]),
                    (''sulker.py'', Inr (module_with (Inr sulking_plugin)))]"

text \<open>A module that calls \<open>sys.exit(0)\<close> when it is executed, beside the test plugin.\<close>

definition exiting_world :: "int world" where
  "exiting_world =
     plugins_world [(''exiting.py'', Inl (Exn SystemExit ''0'')),
                    (''test_plugin.py'', Inr (module_with (Inr test_plugin)))]"

text \<open>
  A module whose execution raises an exception with a \<open>__str__\<close> that raises, and a
  plugin whose \<open>initialize()\<close> raises one.
\<close>

definition garbled :: exn where
  "garbled = Unprintable OtherException (Exn RuntimeError ''no message'')"

definition garbled_world :: "int world" where
  "garbled_world = plugins_world [(''garbled.py'', Inl garbled)]"

definition garbling_plugin :: "int plugin" where
  "garbling_plugin = (plain_plugin ''Garbler'' [])\<lparr>initialize := Inl garbled\<rparr>"

text \<open>A plugin directory that exists and cannot be listed.\<close>

definition locked_world :: "int world" where
  "locked_world = (plugins_world [])\<lparr>os_listdir := (\<lambda>p. Inl (Exn OSError ''Permission denied''))\<rparr>"

text \<open>The manager after loading one plugin, and after loading both statistics plugins.\<close>

definition refusing_world :: "int world" where
  "refusing_world = plugins_world [(''refuser.py'', Inr (module_with (Inr refusing_plugin)))]"

definition refusing_manager :: "int plugin_manager" where
  "refusing_manager =
     snd (load_plugin refusing_world ''refuser'' ''/plugins/refuser.py'' manager0)"

definition stubborn_world :: "int world" where
  "stubborn_world = plugins_world [(''stubborn.py'', Inr (module_with (Inr stubborn_plugin)))]"

definition stubborn_manager :: "int plugin_manager" where
  "stubborn_manager =
     snd (load_plugin stubborn_world ''stubborn'' ''/plugins/stubborn.py'' manager0)"

definition stats_manager :: "int plugin_manager" where
  "stats_manager = snd (load_all_plugins stats_world manager0)"

section \<open>Example sessions\<close>

text \<open>
  A stand-in for \<open>float\<close> on a few whole numbers, enough to run the examples: the
  numbers are integers and \<open>/\<close> is exact on the pairs used.
\<close>

definition toy_floats :: "int float_ops" where
  "toy_floats =
     \<lparr>str_to_float = (\<lambda>s. case map_of [(''0'', 0), (''2'', 2), (''3'', 3), (''10'', 10)] s of
                              None \<Rightarrow> Inl (''could not convert string to float: '' @ s)
                            | Some x \<Rightarrow> Inr x),
      fadd = (\<lambda>x y. x + y), fsub = (\<lambda>x y. x - y), fmul = (\<lambda>x y. x * y),
      ftruediv = (\<lambda>x y. x div y), is_zero = (\<lambda>y. y = 0),
      float_str = (\<lambda>x. (if x < 0 then ''-'' else '''') @ str_of_nat (nat \<bar>x\<bar>) @ ''.0'')\<rparr>"

definition no_text :: "string list \<Rightarrow> exn + int result" where
  "no_text args = Inr (Str '''')"





text \<open>The enhanced registry when the plugin directory holds the plugin that shouts.\<close>

definition shouting_registry :: "int enhanced_registry" where
  "shouting_registry =
     snd (EnhancedCommandRegistry toy_floats
            (plugins_world [(''shouting.py'', Inr (module_with (Inr shouting_plugin)))])
            ''/plugins'' no_text no_text)"

section \<open>Sequencing lemmas\<close>

lemma bnd_call: "bnd (call r) f s = (case r of Inl e \<Rightarrow> (Inl e, s) | Inr a \<Rightarrow> f a s)"
  by (simp add: bnd_def call_def split: sum.splits)

lemma bnd_call_hook:
  "bnd (call_hook h r) f s =
     (case r of
        Inl e \<Rightarrow> (Inl e, s\<lparr>hook_calls := hook_calls s @ [h]\<rparr>)
      | Inr a \<Rightarrow> f a (s\<lparr>hook_calls := hook_calls s @ [h]\<rparr>))"
  by (simp add: bnd_def call_hook_def split: sum.splits)

lemma bnd_modify: "bnd (modify g) f s = f () (g s)"
  by (simp add: bnd_def modify_def)

lemma bnd_raise: "bnd (raise e) f s = (Inl e, s)"
  by (simp add: bnd_def raise_def)

lemmas py_defs = bnd_def call_def call_hook_def modify_def ret_def raise_def except_Exception_def
  except_ValueError_def

lemmas example_defs = plugins_world_def module_with_def named_command_def plain_plugin_def
  test_plugin_def manager0_def PluginManager_def quitting_plugin_def sulking_plugin_def
  refusing_plugin_def stubborn_plugin_def stats_a_def stats_b_def stats_world_def
  shouting_plugin_def halfway_plugin_def mixed_world_def garbled_def garbled_world_def
  garbling_plugin_def refusing_world_def stubborn_world_def join_def endswith_def

lemmas load_defs = load_plugin_def load_plugin_try_def load_plugin_except_def load_module_def
  load_all_plugins_def discover_plugins_def unload_plugin_def unload_plugin_try_def
  unload_plugin_except_def del_loaded_plugins_def del_plugin_info_def

lemma register_commands_ok:
  "map get_name cmds = map Inr names \<Longrightarrow>
   register_commands cmds s =
     (Inr (), s\<lparr>plugin_commands := plugin_commands s ++ map_of (rev (zip names cmds))\<rparr>)"
proof (induction cmds arbitrary: names s)
  case Nil
  then show ?case by simp
next
  case (Cons c cmds)
  then obtain k ks where names: "names = k # ks" and k: "get_name c = Inr k"
    and ks: "map get_name cmds = map Inr ks"
    by (cases names) auto
  show ?case
    unfolding names using k Cons.IH [OF ks]
    by (simp add: map_add_def fun_eq_iff split: option.splits)
qed

lemma register_commands_returns:
  "register_commands cmds s = (Inr u, s') \<Longrightarrow> \<exists>names. map get_name cmds = map Inr names"
proof (induction cmds arbitrary: s)
  case Nil
  then show ?case by simp
next
  case (Cons c cmds)
  then obtain k where k: "get_name c = Inr k" by (cases "get_name c") auto
  with Cons obtain ks where "map get_name cmds = map Inr ks" by fastforce
  with k have "map get_name (c # cmds) = map Inr (k # ks)" by simp
  then show ?case by blast
qed

lemma load_plugin_try_success:
  assumes "load_module w n p = Inr m" and "find_plugin_class m = Inr (Some (Inr pl))"
    and "initialize pl = Inr True" and "plugin_get_name pl = Inr nm"
    and "get_version pl = Inr v" and "get_description pl = Inr d"
    and "get_commands pl = Inr cmds" and "map get_name cmds = map Inr names"
    and "stdout_print w (''Loaded plugin: '' @ nm @ '' v'' @ v) = Inr ()"
  shows "load_plugin_try w n p s =
     (Inr True, s\<lparr>hook_calls := hook_calls s @ [Initialize n],
        loaded_plugins := (loaded_plugins s)(n \<mapsto> pl),
        plugin_info := (plugin_info s)(n \<mapsto>
          \<lparr>info_name = nm, info_version = v, info_description = d, info_path = p\<rparr>),
        plugin_commands := plugin_commands s ++ map_of (rev (zip names cmds))\<rparr>)"
  using assms
  by (simp add: load_plugin_try_def bnd_call bnd_call_hook bnd_modify
      bnd_def [of "register_commands cmds"] register_commands_ok [of cmds names] ret_def)

lemma load_plugin_try_returns:
  assumes "load_plugin_try w n p s = (Inr b, s')"
  obtains m pl nm v d cmds names where
    "load_module w n p = Inr m" and "find_plugin_class m = Inr (Some (Inr pl))"
    and "initialize pl = Inr True" and "plugin_get_name pl = Inr nm"
    and "get_version pl = Inr v" and "get_description pl = Inr d"
    and "get_commands pl = Inr cmds" and "map get_name cmds = map Inr names"
    and "stdout_print w (''Loaded plugin: '' @ nm @ '' v'' @ v) = Inr ()"
proof -
  note defs = load_plugin_try_def bnd_call bnd_call_hook bnd_modify bnd_raise raise_def
  from assms obtain m where m: "load_module w n p = Inr m"
    by (cases "load_module w n p") (simp_all add: defs)
  from assms m obtain oc where oc: "find_plugin_class m = Inr oc"
    by (cases "find_plugin_class m") (simp_all add: defs)
  from assms m oc obtain cls where cls: "oc = Some cls"
    by (cases oc) (simp_all add: defs)
  from assms m oc cls obtain pl where pl: "cls = Inr pl"
    by (cases cls) (simp_all add: defs)
  from assms m oc cls pl obtain ok where ok: "initialize pl = Inr ok"
    by (cases "initialize pl") (simp_all add: defs)
  from assms m oc cls pl ok have ok': "ok"
    by (cases ok) (simp_all add: defs)
  from assms m oc cls pl ok ok' obtain nm where nm: "plugin_get_name pl = Inr nm"
    by (cases "plugin_get_name pl") (simp_all add: defs)
  from assms m oc cls pl ok ok' nm obtain v where v: "get_version pl = Inr v"
    by (cases "get_version pl") (simp_all add: defs)
  from assms m oc cls pl ok ok' nm v obtain d where d: "get_description pl = Inr d"
    by (cases "get_description pl") (simp_all add: defs)
  from assms m oc cls pl ok ok' nm v d obtain cmds where cmds: "get_commands pl = Inr cmds"
    by (cases "get_commands pl") (simp_all add: defs)
  let ?s2 = "s\<lparr>hook_calls := hook_calls s @ [Initialize n],
        loaded_plugins := (loaded_plugins s)(n \<mapsto> pl),
        plugin_info := (plugin_info s)(n \<mapsto>
          \<lparr>info_name = nm, info_version = v, info_description = d, info_path = p\<rparr>)\<rparr>"
  from assms m oc cls pl ok ok' nm v d cmds obtain u s3 where
    "register_commands cmds ?s2 = (Inr u, s3)"
    by (cases "register_commands cmds ?s2")
       (auto simp: defs bnd_def [of "register_commands cmds"] split: sum.splits)
  then obtain names where names: "map get_name cmds = map Inr names"
    using register_commands_returns by blast
  from assms m oc cls pl ok ok' nm v d cmds names
  have "stdout_print w (''Loaded plugin: '' @ nm @ '' v'' @ v) = Inr ()"
    by (simp add: defs bnd_def [of "register_commands cmds"]
        register_commands_ok [of cmds names] ret_def split: sum.splits)
  with m oc cls pl ok ok' nm v d cmds names show thesis
    using that by simp
qed

lemma load_plugin_except_cases:
  "load_plugin_except w n e s =
     (case str_of_exn e of
        Inl e' \<Rightarrow> (Inl e', s)
      | Inr msg \<Rightarrow>
          (case stdout_print w (''Failed to load plugin '' @ n @ '': '' @ msg) of
             Inl e' \<Rightarrow> (Inl e', s)
           | Inr u \<Rightarrow> (Inr False, s)))"
  by (simp add: load_plugin_except_def bnd_call ret_def split: sum.splits)

lemma load_plugin_cases:
  "load_plugin w n p s =
     (case load_plugin_try w n p s of
        (Inl e, s') \<Rightarrow> if is_Exception e then load_plugin_except w n e s' else (Inl e, s')
      | (Inr b, s') \<Rightarrow> (Inr b, s'))"
  by (simp add: load_plugin_def except_Exception_def split: prod.splits sum.splits)

lemma load_plugin_True:
  assumes "fst (load_plugin w n p s) = Inr True"
  shows "load_plugin_try w n p s = (Inr True, snd (load_plugin w n p s))"
  using assms
  by (auto simp: load_plugin_cases load_plugin_except_cases split: prod.splits sum.splits if_splits)

lemma snd_load_plugin: "snd (load_plugin w n p s) = snd (load_plugin_try w n p s)"
  by (simp add: load_plugin_cases load_plugin_except_cases split: prod.splits sum.splits)

lemma load_plugin_except_not_True: "fst (load_plugin_except w n e s) \<noteq> Inr True"
  by (simp add: load_plugin_except_cases split: sum.splits)

lemma load_plugin_not_True:
  "load_plugin_try w n p s = (Inl e, s') \<Longrightarrow> fst (load_plugin w n p s) \<noteq> Inr True"
  by (simp add: load_plugin_cases load_plugin_except_not_True)

section \<open>Unloading a plugin that is not loaded\<close>

text \<open>
  C6. For every name that is not a key of \<open>loaded_plugins\<close>, \<open>unload_plugin(name)\<close>
  returns false and leaves the whole manager state as it was: the three dictionaries,
  and the record of hook calls, so \<open>cleanup\<close> is called on nothing.
\<close>

theorem unload_plugin_not_loaded:
  assumes "plugin_name \<notin> dom (loaded_plugins s)"
  shows "unload_plugin w plugin_name s = (Inr False, s)"
  using assms by (simp add: unload_plugin_def domIff)

theorem unload_plugin_not_loaded_witness:
  "''ghost'' \<notin> dom (loaded_plugins manager0) \<and>
   unload_plugin stats_world ''ghost'' manager0 = (Inr False, manager0) \<and>
   ''ghost'' \<notin> dom (loaded_plugins stats_manager) \<and>
   unload_plugin stats_world ''ghost'' stats_manager = (Inr False, stats_manager)"
proof -
  have h: "''ghost'' \<notin> dom (loaded_plugins manager0)"
    by (simp add: manager0_def PluginManager_def)
  have k: "''ghost'' \<notin> dom (loaded_plugins stats_manager)"
    by (simp add: stats_manager_def load_defs py_defs example_defs)
  show ?thesis
    using h k unload_plugin_not_loaded [OF h, of stats_world]
      unload_plugin_not_loaded [OF k, of stats_world]
    by simp
qed

section \<open>Reloading a loaded plugin\<close>

text \<open>
  C7. When \<open>load_plugin\<close> has loaded a candidate successfully, loading the same candidate
  again from the same source succeeds again and leaves the three dictionaries as the
  first load left them, so the command names in \<open>plugin_commands\<close> and the keys of
  \<open>loaded_plugins\<close> and \<open>plugin_info\<close> are the same sets. (The new instance is
  initialised; \<open>cleanup\<close> of the old one is not called.)
\<close>

theorem load_plugin_reload:
  assumes "fst (load_plugin w n p s) = Inr True"
  shows "let s' = snd (load_plugin w n p s); s'' = snd (load_plugin w n p s') in
           fst (load_plugin w n p s') = Inr True \<and>
           plugin_commands s'' = plugin_commands s' \<and>
           loaded_plugins s'' = loaded_plugins s' \<and>
           plugin_info s'' = plugin_info s' \<and>
           hook_calls s'' = hook_calls s' @ [Initialize n] \<and>
           dom (plugin_commands s'') = dom (plugin_commands s') \<and>
           dom (loaded_plugins s'') = dom (loaded_plugins s') \<and>
           dom (plugin_info s'') = dom (plugin_info s')"
proof -
  define s' where "s' = snd (load_plugin w n p s)"
  have first: "load_plugin_try w n p s = (Inr True, s')"
    using load_plugin_True [OF assms] by (simp add: s'_def)
  then obtain m pl nm v d cmds names where facts:
    "load_module w n p = Inr m" "find_plugin_class m = Inr (Some (Inr pl))"
    "initialize pl = Inr True" "plugin_get_name pl = Inr nm"
    "get_version pl = Inr v" "get_description pl = Inr d"
    "get_commands pl = Inr cmds" "map get_name cmds = map Inr names"
    "stdout_print w (''Loaded plugin: '' @ nm @ '' v'' @ v) = Inr ()"
    by (rule load_plugin_try_returns)
  note effect = load_plugin_try_success [OF facts]
  have s': "s' = s\<lparr>hook_calls := hook_calls s @ [Initialize n],
        loaded_plugins := (loaded_plugins s)(n \<mapsto> pl),
        plugin_info := (plugin_info s)(n \<mapsto>
          \<lparr>info_name = nm, info_version = v, info_description = d, info_path = p\<rparr>),
        plugin_commands := plugin_commands s ++ map_of (rev (zip names cmds))\<rparr>"
    using first by (simp add: effect [of s])
  have again: "(plugin_commands s ++ map_of (rev (zip names cmds))) ++ map_of (rev (zip names cmds)) =
      plugin_commands s ++ map_of (rev (zip names cmds))"
    by (simp add: map_add_def fun_eq_iff split: option.splits)
  have "load_plugin_try w n p s' = (Inr True, s'\<lparr>hook_calls := hook_calls s' @ [Initialize n]\<rparr>)"
    unfolding effect [of s'] by (simp add: s' again)
  then have "load_plugin w n p s' = (Inr True, s'\<lparr>hook_calls := hook_calls s' @ [Initialize n]\<rparr>)"
    by (simp add: load_plugin_cases)
  then show ?thesis
    by (simp add: s'_def [symmetric])
qed

theorem load_plugin_reload_witness:
  "fst (load_plugin stats_world ''stats_a'' ''/plugins/stats_a.py'' manager0) = Inr True \<and>
   fst (load_plugin stats_world ''stats_a'' ''/plugins/stats_a.py''
          (snd (load_plugin stats_world ''stats_a'' ''/plugins/stats_a.py'' manager0))) = Inr True \<and>
   dom (plugin_commands (snd (load_plugin stats_world ''stats_a'' ''/plugins/stats_a.py''
          (snd (load_plugin stats_world ''stats_a'' ''/plugins/stats_a.py'' manager0))))) =
   dom (plugin_commands (snd (load_plugin stats_world ''stats_a'' ''/plugins/stats_a.py'' manager0)))"
proof -
  have h: "fst (load_plugin stats_world ''stats_a'' ''/plugins/stats_a.py'' manager0) = Inr True"
    by (simp add: load_defs py_defs example_defs)
  show ?thesis
    using h load_plugin_reload [OF h] by (simp add: Let_def)
qed

section \<open>A plugin whose \<open>initialize\<close> fails\<close>

lemma load_plugin_try_initialize_False:
  assumes "load_module w n p = Inr m" and "find_plugin_class m = Inr (Some (Inr pl))"
    and "initialize pl = Inr False"
  shows "load_plugin_try w n p s =
     (Inl (Exn RuntimeError (''Failed to initialize plugin '' @ n)),
      s\<lparr>hook_calls := hook_calls s @ [Initialize n]\<rparr>)"
  using assms by (simp add: load_plugin_try_def bnd_call bnd_call_hook bnd_raise raise_def)

lemma load_plugin_try_initialize_raises:
  assumes "load_module w n p = Inr m" and "find_plugin_class m = Inr (Some (Inr pl))"
    and "initialize pl = Inl e"
  shows "load_plugin_try w n p s = (Inl e, s\<lparr>hook_calls := hook_calls s @ [Initialize n]\<rparr>)"
  using assms by (simp add: load_plugin_try_def bnd_call bnd_call_hook)

text \<open>
  C5, as the code has it. For every candidate whose plugin instance's \<open>initialize()\<close>
  returns false or raises, \<open>load_plugin\<close> records nothing and does not return true:
  \<open>loaded_plugins\<close>, \<open>plugin_info\<close> and \<open>plugin_commands\<close> are exactly as before the
  call, the state differs only by the record of the call of \<open>initialize\<close>. It returns
  false when \<open>initialize()\<close> returned false, or raised an instance of \<open>Exception\<close>
  whose \<open>str()\<close> returns, and the handler's message is printed; the message is
  \<open>Failed to load plugin\<close>, the candidate's name and the text of the exception. An
  exception outside \<open>Exception\<close> leaves \<open>load_plugin\<close>.
\<close>

theorem load_plugin_initialize_fails:
  assumes "load_module w plugin_name plugin_path = Inr modl"
    and "find_plugin_class modl = Inr (Some (Inr plugin_instance))"
  shows "(initialize plugin_instance = Inr False \<or> (\<exists>e. initialize plugin_instance = Inl e) \<longrightarrow>
            snd (load_plugin w plugin_name plugin_path s) =
              s\<lparr>hook_calls := hook_calls s @ [Initialize plugin_name]\<rparr> \<and>
            fst (load_plugin w plugin_name plugin_path s) \<noteq> Inr True) \<and>
         (initialize plugin_instance = Inr False \<and>
          stdout_print w (''Failed to load plugin '' @ plugin_name @ '': '' @
                          ''Failed to initialize plugin '' @ plugin_name) = Inr () \<longrightarrow>
            fst (load_plugin w plugin_name plugin_path s) = Inr False) \<and>
         (\<forall>e msg. initialize plugin_instance = Inl e \<and> is_Exception e \<and> str_of_exn e = Inr msg \<and>
            stdout_print w (''Failed to load plugin '' @ plugin_name @ '': '' @ msg) = Inr () \<longrightarrow>
            fst (load_plugin w plugin_name plugin_path s) = Inr False) \<and>
         (\<forall>e. initialize plugin_instance = Inl e \<and> \<not> is_Exception e \<longrightarrow>
            fst (load_plugin w plugin_name plugin_path s) = Inl e)"
proof (intro conjI allI impI)
  assume a: "initialize plugin_instance = Inr False \<or> (\<exists>e. initialize plugin_instance = Inl e)"
  then show "snd (load_plugin w plugin_name plugin_path s) =
      s\<lparr>hook_calls := hook_calls s @ [Initialize plugin_name]\<rparr>"
    using load_plugin_try_initialize_False [OF assms, of s]
      load_plugin_try_initialize_raises [OF assms, of _ s]
    by (auto simp: snd_load_plugin)
  from a show "fst (load_plugin w plugin_name plugin_path s) \<noteq> Inr True"
    using load_plugin_try_initialize_False [OF assms, of s]
      load_plugin_try_initialize_raises [OF assms, of _ s]
    by (auto dest: load_plugin_not_True)
next
  assume "initialize plugin_instance = Inr False \<and>
          stdout_print w (''Failed to load plugin '' @ plugin_name @ '': '' @
                          ''Failed to initialize plugin '' @ plugin_name) = Inr ()"
  then show "fst (load_plugin w plugin_name plugin_path s) = Inr False"
    using load_plugin_try_initialize_False [OF assms, of s]
    by (simp add: load_plugin_cases load_plugin_except_cases)
next
  fix e msg
  assume "initialize plugin_instance = Inl e \<and> is_Exception e \<and> str_of_exn e = Inr msg \<and>
            stdout_print w (''Failed to load plugin '' @ plugin_name @ '': '' @ msg) = Inr ()"
  then show "fst (load_plugin w plugin_name plugin_path s) = Inr False"
    using load_plugin_try_initialize_raises [OF assms, of e s]
    by (simp add: load_plugin_cases load_plugin_except_cases)
next
  fix e
  assume "initialize plugin_instance = Inl e \<and> \<not> is_Exception e"
  then show "fst (load_plugin w plugin_name plugin_path s) = Inl e"
    using load_plugin_try_initialize_raises [OF assms, of e s]
    by (simp add: load_plugin_cases)
qed

theorem load_plugin_initialize_fails_witness:
  "initialize sulking_plugin = Inr False \<and>
   load_plugin (plugins_world [(''sulker.py'', Inr (module_with (Inr sulking_plugin)))])
     ''sulker'' ''/plugins/sulker.py'' manager0 =
       (Inr False, manager0\<lparr>hook_calls := [Initialize ''sulker'']\<rparr>) \<and>
   load_plugin (plugins_world [(''sulker.py'',
       Inr (module_with (Inr (sulking_plugin\<lparr>initialize := Inl (Exn OSError ''disk'')\<rparr>))))])
     ''sulker'' ''/plugins/sulker.py'' manager0 =
       (Inr False, manager0\<lparr>hook_calls := [Initialize ''sulker'']\<rparr>) \<and>
   load_plugin (plugins_world [(''sulker.py'',
       Inr (module_with (Inr (sulking_plugin\<lparr>initialize := Inl (Exn KeyboardInterrupt ''ctrl-c'')\<rparr>))))])
     ''sulker'' ''/plugins/sulker.py'' manager0 =
       (Inl (Exn KeyboardInterrupt ''ctrl-c''), manager0\<lparr>hook_calls := [Initialize ''sulker'']\<rparr>)"
proof -
  let ?w = "plugins_world [(''sulker.py'', Inr (module_with (Inr sulking_plugin)))]"
  let ?po = "sulking_plugin\<lparr>initialize := Inl (Exn OSError ''disk'')\<rparr>"
  let ?wo = "plugins_world [(''sulker.py'', Inr (module_with (Inr ?po)))]"
  let ?pk = "sulking_plugin\<lparr>initialize := Inl (Exn KeyboardInterrupt ''ctrl-c'')\<rparr>"
  let ?wk = "plugins_world [(''sulker.py'', Inr (module_with (Inr ?pk)))]"
  have m: "load_module ?w ''sulker'' ''/plugins/sulker.py'' = Inr (module_with (Inr sulking_plugin))"
    and mo: "load_module ?wo ''sulker'' ''/plugins/sulker.py'' = Inr (module_with (Inr ?po))"
    and mk: "load_module ?wk ''sulker'' ''/plugins/sulker.py'' = Inr (module_with (Inr ?pk))"
    by (simp_all add: load_module_def example_defs)
  have c: "find_plugin_class (module_with (Inr sulking_plugin)) = Inr (Some (Inr sulking_plugin))"
    and co: "find_plugin_class (module_with (Inr ?po)) = Inr (Some (Inr ?po))"
    and ck: "find_plugin_class (module_with (Inr ?pk)) = Inr (Some (Inr ?pk))"
    by (simp_all add: module_with_def)
  have i: "initialize sulking_plugin = Inr False"
    by (simp add: sulking_plugin_def plain_plugin_def)
  have io: "initialize ?po = Inl (Exn OSError ''disk'')"
    and ik: "initialize ?pk = Inl (Exn KeyboardInterrupt ''ctrl-c'')"
    by simp_all
  have e: "is_Exception (Exn OSError ''disk'')" "str_of_exn (Exn OSError ''disk'') = Inr ''disk''"
    "\<not> is_Exception (Exn KeyboardInterrupt ''ctrl-c'')"
    by simp_all
  have p: "\<And>text. stdout_print ?w text = Inr ()" "\<And>text. stdout_print ?wo text = Inr ()"
    by (simp_all add: plugins_world_def)
  have h: "hook_calls manager0 = []"
    by (simp add: manager0_def PluginManager_def)
  show ?thesis
    using i io ik e p h
      load_plugin_initialize_fails [OF m c, of manager0]
      load_plugin_initialize_fails [OF mo co, of manager0]
      load_plugin_initialize_fails [OF mk ck, of manager0]
    by (simp add: prod_eq_iff)
qed

text \<open>
  As stated, C5 fails: \<open>initialize()\<close> of the first plugin below raises \<open>SystemExit\<close>,
  which \<open>except Exception\<close> does not catch, and \<open>initialize()\<close> of the second raises an
  exception whose \<open>__str__\<close> raises, which the handler formats outside any \<open>try\<close>. In
  both cases \<open>load_plugin\<close> does not return false: an exception leaves it.
\<close>

theorem load_plugin_initialize_exits:
  "initialize quitting_plugin = Inl (Exn SystemExit ''1'') \<and>
   load_plugin (plugins_world [(''quitter.py'', Inr (module_with (Inr quitting_plugin)))])
     ''quitter'' ''/plugins/quitter.py'' manager0 =
       (Inl (Exn SystemExit ''1''), manager0\<lparr>hook_calls := [Initialize ''quitter'']\<rparr>) \<and>
   initialize garbling_plugin = Inl garbled \<and>
   load_plugin (plugins_world [(''garbler.py'', Inr (module_with (Inr garbling_plugin)))])
     ''garbler'' ''/plugins/garbler.py'' manager0 =
       (Inl (Exn RuntimeError ''no message''), manager0\<lparr>hook_calls := [Initialize ''garbler'']\<rparr>)"
  by (simp add: load_defs py_defs example_defs)

section \<open>Exceptions during a load\<close>

lemma load_plugin_returns:
  assumes "\<forall>e. fst (load_plugin_try w n p s) = Inl e \<longrightarrow> load_failure_reported w n e"
  shows "\<exists>b s'. load_plugin w n p s = (Inr b, s')"
  using assms
  by (auto simp: load_plugin_cases load_plugin_except_cases load_failure_reported_def
      split: prod.splits sum.splits)

lemma load_each_completes:
  assumes "\<forall>(n, p) \<in> set cands. \<forall>s0 e. fst (load_plugin_try w n p s0) = Inl e \<longrightarrow> load_failure_reported w n e"
  shows "\<exists>results s'. load_each w cands rs s = (Inr results, s') \<and>
           dom results = dom rs \<union> fst ` set cands \<and>
           (\<forall>n b. results n = Some b \<longrightarrow>
              rs n = Some b \<or> (\<exists>p s0. (n, p) \<in> set cands \<and> fst (load_plugin w n p s0) = Inr b))"
  using assms
proof (induction cands arbitrary: rs s)
  case Nil
  then show ?case by simp
next
  case (Cons cand cands)
  obtain n p where cand: "cand = (n, p)" by (cases cand)
  from Cons.prems cand have "\<forall>e. fst (load_plugin_try w n p s) = Inl e \<longrightarrow> load_failure_reported w n e"
    by simp
  then obtain b s1 where l: "load_plugin w n p s = (Inr b, s1)"
    using load_plugin_returns by blast
  from Cons.prems have
    "\<forall>(n, p) \<in> set cands. \<forall>s0 e. fst (load_plugin_try w n p s0) = Inl e \<longrightarrow> load_failure_reported w n e"
    by simp
  from Cons.IH [OF this, of "rs(n \<mapsto> b)" s1] obtain results s' where
    r: "load_each w cands (rs(n \<mapsto> b)) s1 = (Inr results, s')"
    and d: "dom results = dom (rs(n \<mapsto> b)) \<union> fst ` set cands"
    and v: "\<forall>k c. results k = Some c \<longrightarrow>
        (rs(n \<mapsto> b)) k = Some c \<or> (\<exists>p s0. (k, p) \<in> set cands \<and> fst (load_plugin w k p s0) = Inr c)"
    by blast
  have "load_each w (cand # cands) rs s = (Inr results, s')"
    using l r cand by simp
  moreover have "dom results = dom rs \<union> fst ` set (cand # cands)"
    using d cand by auto
  moreover have "\<forall>k c. results k = Some c \<longrightarrow>
      rs k = Some c \<or> (\<exists>p s0. (k, p) \<in> set (cand # cands) \<and> fst (load_plugin w k p s0) = Inr c)"
  proof (intro allI impI)
    fix k c assume "results k = Some c"
    with v consider "(rs(n \<mapsto> b)) k = Some c"
      | "\<exists>p s0. (k, p) \<in> set cands \<and> fst (load_plugin w k p s0) = Inr c"
      by blast
    then show "rs k = Some c \<or>
        (\<exists>p s0. (k, p) \<in> set (cand # cands) \<and> fst (load_plugin w k p s0) = Inr c)"
    proof cases
      case 1
      show ?thesis
      proof (cases "k = n")
        case True
        with 1 have "c = b" by simp
        with l True cand have "(k, p) \<in> set (cand # cands) \<and> fst (load_plugin w k p s) = Inr c"
          by simp
        then show ?thesis by blast
      next
        case False
        with 1 show ?thesis by simp
      qed
    next
      case 2
      then show ?thesis by auto
    qed
  qed
  ultimately show ?case by blast
qed

lemma load_plugin_try_True:
  assumes "load_plugin_try w n p s = (Inr b, s')"
  shows "b"
proof -
  from assms obtain m pl nm v d cmds names where facts:
    "load_module w n p = Inr m" "find_plugin_class m = Inr (Some (Inr pl))"
    "initialize pl = Inr True" "plugin_get_name pl = Inr nm"
    "get_version pl = Inr v" "get_description pl = Inr d"
    "get_commands pl = Inr cmds" "map get_name cmds = map Inr names"
    "stdout_print w (''Loaded plugin: '' @ nm @ '' v'' @ v) = Inr ()"
    by (rule load_plugin_try_returns)
  from assms show ?thesis
    by (simp add: load_plugin_try_success [OF facts])
qed

text \<open>
  C1, as the code has it. Wherever the body of \<open>load_plugin\<close> raises (module loading,
  class discovery, instantiation, \<open>initialize\<close>, the metadata snapshot, command
  registration, the closing print), an exception that is an instance of \<open>Exception\<close>
  is caught, and \<open>load_plugin\<close> returns false, with the state as the body left it, when
  the handler reports it: \<open>str()\<close> of the exception returns and the message is printed.
  It returns false in no other case: an exception outside \<open>Exception\<close>, and one that
  formatting or printing the message raises, leave \<open>load_plugin\<close>. Consequently, when
  discovery has returned its candidates and every exception that a load raises is one
  that the handler reports, \<open>load_all_plugins\<close> completes and returns a map whose keys
  are the candidates' names, each value the boolean that \<open>load_plugin\<close> returned for a
  candidate of that name, also when every load fails.
\<close>

theorem load_plugin_catches_Exception:
  "(\<forall>e. fst (load_plugin_try w n p s) = Inl e \<and> load_failure_reported w n e \<longrightarrow>
      load_plugin w n p s = (Inr False, snd (load_plugin_try w n p s))) \<and>
   (fst (load_plugin w n p s) = Inr False \<longrightarrow>
      (\<exists>e. fst (load_plugin_try w n p s) = Inl e \<and> load_failure_reported w n e)) \<and>
   (discover_dirs w (plugin_dirs s) = Inr cands \<and>
    (\<forall>(n, p) \<in> set cands. \<forall>s0 e. fst (load_plugin_try w n p s0) = Inl e \<longrightarrow> load_failure_reported w n e) \<longrightarrow>
      (\<exists>results s'. load_all_plugins w s = (Inr results, s') \<and>
         dom results = fst ` set cands \<and>
         (\<forall>n b. results n = Some b \<longrightarrow>
            (\<exists>p s0. (n, p) \<in> set cands \<and> fst (load_plugin w n p s0) = Inr b))))"
proof (intro conjI allI impI)
  fix e assume "fst (load_plugin_try w n p s) = Inl e \<and> load_failure_reported w n e"
  then show "load_plugin w n p s = (Inr False, snd (load_plugin_try w n p s))"
    by (auto simp: load_plugin_cases load_plugin_except_cases load_failure_reported_def
        split: prod.splits sum.splits)
next
  assume f: "fst (load_plugin w n p s) = Inr False"
  obtain out s' where t: "load_plugin_try w n p s = (out, s')"
    by (cases "load_plugin_try w n p s")
  show "\<exists>e. fst (load_plugin_try w n p s) = Inl e \<and> load_failure_reported w n e"
  proof (cases out)
    case (Inl e)
    with f t show ?thesis
      by (auto simp: load_plugin_cases load_plugin_except_cases load_failure_reported_def
          split: sum.splits if_splits)
  next
    case (Inr b)
    with t have b using load_plugin_try_True by blast
    with f t Inr show ?thesis by (simp add: load_plugin_cases)
  qed
next
  assume a: "discover_dirs w (plugin_dirs s) = Inr cands \<and>
    (\<forall>(n, p) \<in> set cands. \<forall>s0 e. fst (load_plugin_try w n p s0) = Inl e \<longrightarrow> load_failure_reported w n e)"
  then have "\<forall>(n, p) \<in> set cands. \<forall>s0 e. fst (load_plugin_try w n p s0) = Inl e \<longrightarrow> load_failure_reported w n e"
    by blast
  from load_each_completes [OF this, of Map.empty s] a
  show "\<exists>results s'. load_all_plugins w s = (Inr results, s') \<and>
         dom results = fst ` set cands \<and>
         (\<forall>n b. results n = Some b \<longrightarrow>
            (\<exists>p s0. (n, p) \<in> set cands \<and> fst (load_plugin w n p s0) = Inr b))"
    by (auto simp: load_all_plugins_def discover_plugins_def bnd_def)
qed

theorem load_plugin_catches_Exception_witness:
  "load_plugin failing_world ''broken'' ''/plugins/broken.py'' manager0 = (Inr False, manager0) \<and>
   (\<exists>results s'. load_all_plugins failing_world manager0 = (Inr results, s') \<and>
      dom results = {''broken'', ''empty'', ''sulker''})"
proof -
  let ?cands = "[(''broken'', ''/plugins/broken.py''), (''empty'', ''/plugins/empty.py''),
                 (''sulker'', ''/plugins/sulker.py'')]"
  have t: "load_plugin_try failing_world ''broken'' ''/plugins/broken.py'' manager0 =
      (Inl (Exn ImportError ''No module named numpy''), manager0)"
    by (simp add: load_defs py_defs example_defs failing_world_def)
  have r: "load_failure_reported failing_world ''broken'' (Exn ImportError ''No module named numpy'')"
    by (simp add: load_failure_reported_def failing_world_def plugins_world_def)
  have d: "discover_dirs failing_world (plugin_dirs manager0) = Inr ?cands"
    by (simp add: example_defs failing_world_def)
  have e: "\<forall>(n, p) \<in> set ?cands. \<forall>s0 e.
      fst (load_plugin_try failing_world n p s0) = Inl e \<longrightarrow> load_failure_reported failing_world n e"
    by (auto simp: load_defs py_defs example_defs failing_world_def load_failure_reported_def)
  show ?thesis
    using t r d e
      load_plugin_catches_Exception [of failing_world "''broken''" "''/plugins/broken.py''"
        manager0 ?cands]
    by auto
qed

text \<open>
  As stated, C1 fails: executing the first module below raises \<open>SystemExit\<close>, which
  leaves \<open>load_plugin\<close> and \<open>load_all_plugins\<close>; the second candidate is never loaded.
  Executing the module of \<open>garbled_world\<close> raises an instance of \<open>Exception\<close> whose
  \<open>__str__\<close> raises: the handler catches it, and what formatting it raises leaves
  \<open>load_plugin\<close> and \<open>load_all_plugins\<close>. And \<open>load_all_plugins\<close> does not complete
  either when listing a plugin directory raises, before any load.
\<close>

theorem load_plugin_lets_SystemExit_through:
  "load_plugin exiting_world ''exiting'' ''/plugins/exiting.py'' manager0 =
     (Inl (Exn SystemExit ''0''), manager0) \<and>
   load_all_plugins exiting_world manager0 = (Inl (Exn SystemExit ''0''), manager0) \<and>
   is_Exception garbled \<and>
   load_plugin garbled_world ''garbled'' ''/plugins/garbled.py'' manager0 =
     (Inl (Exn RuntimeError ''no message''), manager0) \<and>
   load_all_plugins garbled_world manager0 = (Inl (Exn RuntimeError ''no message''), manager0) \<and>
   load_all_plugins locked_world manager0 = (Inl (Exn OSError ''Permission denied''), manager0)"
  by (simp add: load_defs py_defs example_defs exiting_world_def locked_world_def)

section \<open>Unloading and the result of \<open>cleanup\<close>\<close>

text \<open>
  C4 asks that \<open>unload_plugin\<close> not return true when \<open>cleanup()\<close> returned false. The
  code calls \<open>cleanup()\<close> and drops its result: for the loaded plugin below, whose
  \<open>cleanup()\<close> returns false, \<open>unload_plugin\<close> calls \<open>cleanup()\<close>, returns true and has
  removed the plugin.
\<close>

theorem unload_plugin_ignores_cleanup:
  "loaded_plugins refusing_manager ''refuser'' = Some refusing_plugin \<and>
   cleanup refusing_plugin = Inr False \<and>
   fst (unload_plugin refusing_world ''refuser'' refusing_manager) = Inr True \<and>
   loaded_plugins (snd (unload_plugin refusing_world ''refuser'' refusing_manager)) ''refuser'' = None \<and>
   hook_calls (snd (unload_plugin refusing_world ''refuser'' refusing_manager)) =
     [Initialize ''refuser'', Cleanup ''refuser'']"
  by (simp add: refusing_manager_def load_defs py_defs example_defs)

section \<open>What unloading removes\<close>

lemma remove_commands_ok:
  "map get_name cmds = map Inr names \<Longrightarrow>
   remove_commands cmds s =
     (Inr (), s\<lparr>plugin_commands := (\<lambda>k. if k \<in> set names then None else plugin_commands s k)\<rparr>)"
proof (induction cmds arbitrary: names s)
  case Nil
  then show ?case by simp
next
  case (Cons c cmds)
  then obtain k ks where names: "names = k # ks" and k: "get_name c = Inr k"
    and ks: "map get_name cmds = map Inr ks"
    by (cases names) auto
  show ?case
    unfolding names using k Cons.IH [OF ks]
    by (auto simp: fun_eq_iff domIff)
qed

text \<open>
  C3, as the code has it. For every currently-loaded plugin whose \<open>cleanup()\<close>,
  \<open>get_commands()\<close> and the \<open>get_name()\<close> of each reported command return without
  raising, \<open>unload_plugin\<close> removes from \<open>plugin_commands\<close> exactly the names that the
  plugin's \<open>get_commands()\<close> reports, whichever command occupies each of them, leaves the
  entry under every other name unchanged, and deletes the plugin's entries from
  \<open>loaded_plugins\<close> and \<open>plugin_info\<close>.
\<close>

theorem unload_plugin_removes:
  assumes "loaded_plugins s plugin_name = Some plugin"
    and "cleanup plugin = Inr cleaned"
    and "get_commands plugin = Inr cmds"
    and "map get_name cmds = map Inr names"
  shows "let s' = snd (unload_plugin w plugin_name s) in
           (\<forall>k. plugin_commands s' k = (if k \<in> set names then None else plugin_commands s k)) \<and>
           loaded_plugins s' = (loaded_plugins s)(plugin_name := None) \<and>
           plugin_info s' = (plugin_info s)(plugin_name := None)"
proof -
  let ?s1 = "s\<lparr>hook_calls := hook_calls s @ [Cleanup plugin_name],
      plugin_commands := (\<lambda>k. if k \<in> set names then None else plugin_commands s k)\<rparr>"
  let ?s2 = "?s1\<lparr>loaded_plugins := (loaded_plugins s)(plugin_name := None)\<rparr>"
  have try_eq: "unload_plugin_try w plugin_name plugin s =
      bnd (del_plugin_info w plugin_name) (\<lambda>_. ret True) ?s2"
    using assms
    by (simp add: unload_plugin_try_def bnd_call bnd_call_hook bnd_def [of "remove_commands cmds"]
        remove_commands_ok [of cmds names] bnd_def [of "del_loaded_plugins w plugin_name"]
        del_loaded_plugins_def domIff cong: if_cong)
  have handler: "\<And>e t. snd (unload_plugin_except w plugin_name e t) = t"
    by (simp add: unload_plugin_except_def bnd_call ret_def split: sum.splits)
  show ?thesis
  proof (cases "plugin_name \<in> dom (plugin_info s)")
    case True
    then have "unload_plugin w plugin_name s =
        (Inr True, ?s2\<lparr>plugin_info := (plugin_info s)(plugin_name := None)\<rparr>)"
      using assms(1) try_eq
      by (simp add: unload_plugin_def except_Exception_def del_plugin_info_def bnd_def ret_def)
    then show ?thesis by simp
  next
    case False
    then have "snd (unload_plugin w plugin_name s) = ?s2"
      using assms(1) try_eq
      by (simp add: unload_plugin_def except_Exception_def del_plugin_info_def bnd_def handler)
    moreover have "(plugin_info s)(plugin_name := None) = plugin_info s"
      using False by (auto simp: fun_eq_iff domIff)
    ultimately show ?thesis by simp
  qed
qed

theorem unload_plugin_removes_witness:
  "plugin_commands stats_manager ''mean'' = Some (named_command ''mean'' ''mean of B'') \<and>
   plugin_commands (snd (unload_plugin stats_world ''stats_a'' stats_manager)) ''mean'' = None \<and>
   plugin_commands (snd (unload_plugin stats_world ''stats_a'' stats_manager)) ''median'' = None \<and>
   plugin_commands (snd (unload_plugin stats_world ''stats_a'' stats_manager)) ''mode'' =
     Some (named_command ''mode'' ''mode of B'') \<and>
   loaded_plugins (snd (unload_plugin stats_world ''stats_a'' stats_manager)) ''stats_a'' = None \<and>
   plugin_info (snd (unload_plugin stats_world ''stats_a'' stats_manager)) ''stats_a'' = None"
proof -
  have s: "stats_manager =
      manager0\<lparr>hook_calls := [Initialize ''stats_a'', Initialize ''stats_b''],
        loaded_plugins := [''stats_a'' \<mapsto> stats_a, ''stats_b'' \<mapsto> stats_b],
        plugin_info := [''stats_a'' \<mapsto> \<lparr>info_name = ''Stats A'', info_version = ''1.0.0'',
            info_description = ''Stats A'', info_path = ''/plugins/stats_a.py''\<rparr>,
          ''stats_b'' \<mapsto> \<lparr>info_name = ''Stats B'', info_version = ''1.0.0'',
            info_description = ''Stats B'', info_path = ''/plugins/stats_b.py''\<rparr>],
        plugin_commands := [''mean'' \<mapsto> named_command ''mean'' ''mean of B'',
          ''median'' \<mapsto> named_command ''median'' ''median of A'',
          ''mode'' \<mapsto> named_command ''mode'' ''mode of B'']\<rparr>"
    by (simp add: stats_manager_def load_defs py_defs example_defs fun_upd_twist)
  have l: "loaded_plugins stats_manager ''stats_a'' = Some stats_a"
    by (simp add: s)
  have c: "cleanup stats_a = Inr True"
    by (simp add: stats_a_def plain_plugin_def)
  have g: "get_commands stats_a =
      Inr [named_command ''mean'' ''mean of A'', named_command ''median'' ''median of A'']"
    by (simp add: stats_a_def plain_plugin_def)
  have n: "map get_name [named_command ''mean'' ''mean of A'', named_command ''median'' ''median of A''] =
      map Inr [''mean'', ''median'']"
    by (simp add: named_command_def)
  show ?thesis
    using unload_plugin_removes [OF l c g n]
    by (simp add: Let_def s)
qed

text \<open>
  As stated, C3 fails: \<open>cleanup()\<close> of the loaded plugin below raises, and
  \<open>unload_plugin\<close> returns false with nothing removed: the plugin's command and its entry
  in \<open>loaded_plugins\<close> are still there, the state differs only by the record of the call.
\<close>

theorem unload_plugin_cleanup_raises:
  "loaded_plugins stubborn_manager ''stubborn'' = Some stubborn_plugin \<and>
   get_commands stubborn_plugin = Inr [named_command ''stuck'' ''stuck''] \<and>
   unload_plugin stubborn_world ''stubborn'' stubborn_manager =
     (Inr False, stubborn_manager\<lparr>hook_calls := [Initialize ''stubborn'', Cleanup ''stubborn'']\<rparr>) \<and>
   plugin_commands (snd (unload_plugin stubborn_world ''stubborn'' stubborn_manager)) ''stuck'' =
     Some (named_command ''stuck'' ''stuck'') \<and>
   loaded_plugins (snd (unload_plugin stubborn_world ''stubborn'' stubborn_manager)) ''stubborn'' =
     Some stubborn_plugin"
  by (simp add: stubborn_manager_def load_defs py_defs example_defs)

section \<open>Last writer wins\<close>

lemma last_named_Cons:
  "last_named k (c # cs) =
     (case last_named k cs of
        None \<Rightarrow> if get_name c = Inr k then Some c else None
      | Some c' \<Rightarrow> Some c')"
  by (simp add: last_named_def split: list.splits)

lemma last_named_append:
  "last_named k (xs @ ys) =
     (case last_named k ys of None \<Rightarrow> last_named k xs | Some c \<Rightarrow> Some c)"
  by (induction xs) (simp_all add: last_named_Cons last_named_def split: option.splits list.splits)

lemma register_commands_last_named:
  "plugin_commands (snd (register_commands cmds s)) k =
     (case last_named k (registered_prefix cmds) of
        None \<Rightarrow> plugin_commands s k
      | Some c \<Rightarrow> Some c)"
proof (induction cmds arbitrary: s)
  case Nil
  then show ?case by (simp add: last_named_def)
next
  case (Cons c cmds)
  show ?case
  proof (cases "get_name c")
    case (Inl e)
    then show ?thesis by (simp add: last_named_def)
  next
    case (Inr n)
    then show ?thesis
      by (simp add: Cons.IH last_named_Cons split: option.splits)
  qed
qed

lemma registered_prefix_all:
  "map get_name cmds = map Inr names \<Longrightarrow> registered_prefix cmds = cmds"
proof (induction cmds arbitrary: names)
  case Nil
  then show ?case by simp
next
  case (Cons c cmds)
  then obtain n ns where "get_name c = Inr n" and "map get_name cmds = map Inr ns"
    by (cases names) auto
  with Cons.IH show ?case by simp
qed

lemma snd_bnd_register:
  "plugin_commands (snd (bnd (register_commands cmds)
      (\<lambda>_. bnd (call a) (\<lambda>x. bnd (call (b x)) (\<lambda>y. bnd (call (c x y)) (\<lambda>_. ret z)))) s)) =
   plugin_commands (snd (register_commands cmds s))"
  by (simp add: bnd_def call_def ret_def split: prod.splits sum.splits)

lemma load_plugin_last_named:
  "plugin_commands (snd (load_plugin w n p s)) k =
     (case last_named k (registered_commands w (n, p)) of
        None \<Rightarrow> plugin_commands s k
      | Some c \<Rightarrow> Some c)"
proof -
  note defs = load_plugin_try_def registered_commands_def bnd_call bnd_call_hook bnd_modify
    bnd_raise raise_def last_named_def
  show ?thesis
  proof (cases "load_module w n p")
    case (Inl e)
    then show ?thesis by (simp add: snd_load_plugin defs)
  next
    case m: (Inr m)
    show ?thesis
    proof (cases "find_plugin_class m")
      case (Inl e)
      with m show ?thesis by (simp add: snd_load_plugin defs)
    next
      case oc: (Inr oc)
      show ?thesis
      proof (cases oc)
        case None
        with m oc show ?thesis by (simp add: snd_load_plugin defs)
      next
        case (Some cls)
        show ?thesis
        proof (cases cls)
          case (Inl e)
          with m oc Some show ?thesis by (simp add: snd_load_plugin defs)
        next
          case (Inr pl)
          have c: "find_plugin_class m = Inr (Some (Inr pl))"
            using oc Some Inr by simp
          show ?thesis
            unfolding snd_load_plugin
            by (simp add: m c load_plugin_try_def registered_commands_def bnd_call bnd_call_hook
                bnd_modify bnd_raise raise_def snd_bnd_register register_commands_last_named
                split: sum.splits bool.splits)
               (auto simp: last_named_def split: option.splits list.splits)
        qed
      qed
    qed
  qed
qed

lemma load_each_last_named:
  assumes "load_each w cands rs s = (Inr results, s')"
  shows "plugin_commands s' k =
           (case last_named k (concat (map (registered_commands w) cands)) of
              None \<Rightarrow> plugin_commands s k
            | Some c \<Rightarrow> Some c)"
  using assms
proof (induction cands arbitrary: rs s)
  case Nil
  then show ?case by (simp add: last_named_def)
next
  case (Cons cand cands)
  obtain n p where cand: "cand = (n, p)" by (cases cand)
  obtain out s1 where l: "load_plugin w n p s = (out, s1)" by (cases "load_plugin w n p s")
  from Cons.prems cand l obtain b where out: "out = Inr b"
    by (cases out) simp_all
  from Cons.prems cand l out have "load_each w cands (rs(n \<mapsto> b)) s1 = (Inr results, s')"
    by simp
  from Cons.IH [OF this] have "plugin_commands s' k =
      (case last_named k (concat (map (registered_commands w) cands)) of
         None \<Rightarrow> plugin_commands s1 k | Some c \<Rightarrow> Some c)" .
  moreover have "plugin_commands s1 k =
      (case last_named k (registered_commands w (n, p)) of
         None \<Rightarrow> plugin_commands s k | Some c \<Rightarrow> Some c)"
    using load_plugin_last_named [of w n p s k] l by simp
  ultimately show ?case
    using cand by (simp add: last_named_append split: option.splits)
qed

lemma registered_all_on_success:
  assumes "fst (load_plugin w n p s) = Inr True"
  shows "registered_commands w (n, p) = reported_commands w (n, p)"
proof -
  have "load_plugin_try w n p s = (Inr True, snd (load_plugin w n p s))"
    using load_plugin_True [OF assms] .
  then obtain m pl nm v d cmds names where facts:
    "load_module w n p = Inr m" "find_plugin_class m = Inr (Some (Inr pl))"
    "initialize pl = Inr True" "plugin_get_name pl = Inr nm"
    "get_version pl = Inr v" "get_description pl = Inr d"
    "get_commands pl = Inr cmds" "map get_name cmds = map Inr names"
    "stdout_print w (''Loaded plugin: '' @ nm @ '' v'' @ v) = Inr ()"
    by (rule load_plugin_try_returns)
  then show ?thesis
    by (simp add: registered_commands_def reported_commands_def registered_prefix_all [of cmds names])
qed

text \<open>
  C2. The registration loop stores each command under its own \<open>get_name()\<close>: after it,
  a name holds the command registered last under that name, and every other name holds
  what it held before. So after any sequence of plugin loads that returns, each command
  name of \<open>plugin_commands\<close> maps to one command, the one registered last under that name
  among all the commands that the loads registered, in load order; nothing rejects a name
  that is taken. A load that succeeds registers every command that its plugin reports.
\<close>

theorem last_writer_wins:
  "(\<forall>k. plugin_commands (snd (register_commands cmds s)) k =
      (case last_named k (registered_prefix cmds) of
         None \<Rightarrow> plugin_commands s k
       | Some c \<Rightarrow> Some c)) \<and>
   (load_each w cands rs s = (Inr results, s') \<longrightarrow>
      (\<forall>k. plugin_commands s' k =
         (case last_named k (concat (map (registered_commands w) cands)) of
            None \<Rightarrow> plugin_commands s k
          | Some c \<Rightarrow> Some c))) \<and>
   (fst (load_plugin w n p s) = Inr True \<longrightarrow>
      registered_commands w (n, p) = reported_commands w (n, p))"
  using register_commands_last_named [of cmds s]
    load_each_last_named [of w cands rs s results s']
    registered_all_on_success [of w n p s]
  by blast

theorem last_writer_wins_witness:
  "load_each mixed_world
     [(''stats_a'', ''/plugins/stats_a.py''), (''stats_b'', ''/plugins/stats_b.py''),
      (''halfway'', ''/plugins/halfway.py'')] Map.empty manager0 =
     (Inr [''stats_a'' \<mapsto> True, ''stats_b'' \<mapsto> True, ''halfway'' \<mapsto> False],
      snd (load_all_plugins mixed_world manager0)) \<and>
   plugin_commands (snd (load_all_plugins mixed_world manager0)) ''mean'' =
     Some (named_command ''mean'' ''mean of B'') \<and>
   plugin_commands (snd (load_all_plugins mixed_world manager0)) ''median'' =
     Some (named_command ''median'' ''median of A'') \<and>
   plugin_commands (snd (load_all_plugins mixed_world manager0)) ''mode'' =
     Some (named_command ''mode'' ''mode of Halfway'') \<and>
   plugin_commands (snd (load_all_plugins mixed_world manager0)) ''sqrt'' = None \<and>
   registered_commands mixed_world (''stats_a'', ''/plugins/stats_a.py'') =
     [named_command ''mean'' ''mean of A'', named_command ''median'' ''median of A'']"
proof -
  let ?cands = "[(''stats_a'', ''/plugins/stats_a.py''), (''stats_b'', ''/plugins/stats_b.py''),
      (''halfway'', ''/plugins/halfway.py'')]"
  let ?s' = "snd (load_all_plugins mixed_world manager0)"
  have l: "load_each mixed_world ?cands Map.empty manager0 =
      (Inr [''stats_a'' \<mapsto> True, ''stats_b'' \<mapsto> True, ''halfway'' \<mapsto> False], ?s')"
    by (simp add: load_defs py_defs example_defs)
  have a: "fst (load_plugin mixed_world ''stats_a'' ''/plugins/stats_a.py'' manager0) = Inr True"
    by (simp add: load_defs py_defs example_defs)
  have r: "concat (map (registered_commands mixed_world) ?cands) =
      [named_command ''mean'' ''mean of A'', named_command ''median'' ''median of A'',
       named_command ''mean'' ''mean of B'', named_command ''mode'' ''mode of B'',
       named_command ''mode'' ''mode of Halfway'']"
    by (simp add: registered_commands_def load_module_def example_defs)
  have rep: "reported_commands mixed_world (''stats_a'', ''/plugins/stats_a.py'') =
      [named_command ''mean'' ''mean of A'', named_command ''median'' ''median of A'']"
    by (simp add: reported_commands_def load_module_def example_defs)
  have e: "plugin_commands manager0 = Map.empty"
    by (simp add: manager0_def PluginManager_def)
  note lww = last_writer_wins [of "[]" manager0 mixed_world ?cands Map.empty
      "[''stats_a'' \<mapsto> True, ''stats_b'' \<mapsto> True, ''halfway'' \<mapsto> False]" ?s'
      "''stats_a''" "''/plugins/stats_a.py''"]
  from lww l have k: "\<And>k. plugin_commands ?s' k =
      (case last_named k (concat (map (registered_commands mixed_world) ?cands)) of
         None \<Rightarrow> plugin_commands manager0 k | Some c \<Rightarrow> Some c)"
    by blast
  from lww a rep have reg: "registered_commands mixed_world (''stats_a'', ''/plugins/stats_a.py'') =
      [named_command ''mean'' ''mean of A'', named_command ''median'' ''median of A'']"
    by simp
  have "plugin_commands ?s' ''mean'' = Some (named_command ''mean'' ''mean of B'')"
    and "plugin_commands ?s' ''median'' = Some (named_command ''median'' ''median of A'')"
    and "plugin_commands ?s' ''mode'' = Some (named_command ''mode'' ''mode of Halfway'')"
    and "plugin_commands ?s' ''sqrt'' = None"
    unfolding k r by (simp_all add: e last_named_def named_command_def)
  with l reg show ?thesis by blast
qed

section \<open>The built-in registry\<close>

lemma register_command_ok:
  "get_name c = Inr n \<Longrightarrow> register_command c cs = (Inr (), cs(n \<mapsto> c))"
  by (simp add: register_command_def)

lemma CommandRegistry_eq:
  "CommandRegistry fl help_execute =
     [''add'' \<mapsto> ArithmeticCommand fl ''add'' (add_func fl),
      ''subtract'' \<mapsto> ArithmeticCommand fl ''subtract'' (subtract_func fl),
      ''multiply'' \<mapsto> ArithmeticCommand fl ''multiply'' (multiply_func fl),
      ''divide'' \<mapsto> ArithmeticCommand fl ''divide'' (divide_func fl),
      ''help'' \<mapsto> HelpCommand help_execute,
      ''exit'' \<mapsto> ExitCommand,
      ''quit'' \<mapsto> ExitCommand]"
  by (simp add: CommandRegistry_def setup_basic_commands_def bnd_def modify_def
      register_command_def ArithmeticCommand_def HelpCommand_def ExitCommand_def
      lower_def lower_char_def)

lemma lower_builtin:
  "lower ''add'' = ''add''" "lower ''subtract'' = ''subtract''"
  "lower ''multiply'' = ''multiply''" "lower ''divide'' = ''divide''"
  "lower ''help'' = ''help''" "lower ''exit'' = ''exit''" "lower ''quit'' = ''quit''"
  by (simp_all add: lower_def lower_char_def)

section \<open>Arithmetic\<close>

lemma arith_execute_values:
  assumes "str_to_float fl a = Inr x" and "str_to_float fl b = Inr y"
    and "func x y = Inr v \<or> (\<exists>m. func x y = Inl (Exn ZeroDivisionError m))"
  shows "arith_execute fl operation func [a, b] =
     (case func x y of
        Inr v \<Rightarrow> Inr (Num v)
      | Inl exc \<Rightarrow> Inl (Exn ValueError ''Division by zero is not allowed''))"
  using assms by (auto simp: arith_execute_def arith_try_def py_float_def)

lemma arith_try_classes:
  assumes "\<forall>x y e. func x y = Inl e \<longrightarrow> (\<exists>m. e = Exn ZeroDivisionError m)"
    and "arith_try fl func args = Inl e"
  shows "\<exists>m. e = Exn ValueError m \<or> e = Exn ZeroDivisionError m"
proof (cases "str_to_float fl (args ! 0)")
  case (Inl m)
  with assms(2) show ?thesis by (auto simp: arith_try_def py_float_def)
next
  case x: (Inr x)
  show ?thesis
  proof (cases "str_to_float fl (args ! 1)")
    case (Inl m)
    with assms(2) x show ?thesis by (auto simp: arith_try_def py_float_def)
  next
    case (Inr y)
    with assms(2) x have "func x y = Inl e" by (simp add: arith_try_def py_float_def)
    with assms(1) show ?thesis by blast
  qed
qed

lemma arith_execute_ValueError:
  assumes "\<forall>x y e. func x y = Inl e \<longrightarrow> (\<exists>m. e = Exn ZeroDivisionError m)"
    and "arith_execute fl operation func args = Inl e"
  shows "exn_class_of e = ValueError"
proof (cases "length args \<noteq> 2")
  case True
  with assms(2) show ?thesis by (auto simp: arith_execute_def)
next
  case False
  show ?thesis
  proof (cases "arith_try fl func args")
    case (Inl exc)
    from arith_try_classes [OF assms(1) Inl]
    obtain m where "exc = Exn ValueError m \<or> exc = Exn ZeroDivisionError m" by blast
    with assms(2) False Inl show ?thesis
      by (auto simp: arith_execute_def split: if_splits)
  next
    case (Inr v)
    with assms(2) False show ?thesis by (simp add: arith_execute_def)
  qed
qed

lemma arith_execute_bad_input:
  assumes "length args \<noteq> 2 \<or> (\<exists>m. str_to_float fl (args ! 0) = Inl m) \<or>
           (\<exists>m. str_to_float fl (args ! 1) = Inl m)"
  shows "\<exists>msg. arith_execute fl operation func args = Inl (Exn ValueError msg)"
proof (cases "length args \<noteq> 2")
  case True
  then show ?thesis by (simp add: arith_execute_def)
next
  case False
  with assms have "(\<exists>m. str_to_float fl (args ! 0) = Inl m) \<or>
           (\<exists>m. str_to_float fl (args ! 1) = Inl m)" by simp
  then have "\<exists>m. arith_try fl func args = Inl (Exn ValueError m)"
    by (cases "str_to_float fl (args ! 0)") (auto simp: arith_try_def py_float_def)
  then show ?thesis using False by (auto simp: arith_execute_def)
qed

lemma arith_funcs:
  "\<forall>x y e. add_func fl x y = Inl e \<longrightarrow> (\<exists>m. e = Exn ZeroDivisionError m)"
  "\<forall>x y e. subtract_func fl x y = Inl e \<longrightarrow> (\<exists>m. e = Exn ZeroDivisionError m)"
  "\<forall>x y e. multiply_func fl x y = Inl e \<longrightarrow> (\<exists>m. e = Exn ZeroDivisionError m)"
  "\<forall>x y e. divide_func fl x y = Inl e \<longrightarrow> (\<exists>m. e = Exn ZeroDivisionError m)"
  by (auto simp: add_func_def subtract_func_def multiply_func_def divide_func_def split: if_splits)

text \<open>
  C8. The registry holds the four arithmetic commands under \<open>add\<close>, \<open>subtract\<close>,
  \<open>multiply\<close> and \<open>divide\<close>. Executed with two arguments that \<open>float\<close> parses, each
  returns the float operation of its name applied to the parsed values, in argument
  order; \<open>divide\<close> with a zero divisor raises \<open>ValueError\<close> with the message
  \<open>Division by zero is not allowed\<close>. A wrong argument count or an argument that \<open>float\<close>
  rejects raises \<open>ValueError\<close>, and no other class of exception ever leaves \<open>execute\<close>
  of these commands. The float operations themselves are parameters of the model.
\<close>

theorem arithmetic_commands:
  "(get_command (CommandRegistry fl help_execute) ''add'' =
      Some (ArithmeticCommand fl ''add'' (add_func fl)) \<and>
    get_command (CommandRegistry fl help_execute) ''subtract'' =
      Some (ArithmeticCommand fl ''subtract'' (subtract_func fl)) \<and>
    get_command (CommandRegistry fl help_execute) ''multiply'' =
      Some (ArithmeticCommand fl ''multiply'' (multiply_func fl)) \<and>
    get_command (CommandRegistry fl help_execute) ''divide'' =
      Some (ArithmeticCommand fl ''divide'' (divide_func fl))) \<and>
   (str_to_float fl a = Inr x \<and> str_to_float fl b = Inr y \<longrightarrow>
      execute (ArithmeticCommand fl ''add'' (add_func fl)) [a, b] = Inr (Num (fadd fl x y)) \<and>
      execute (ArithmeticCommand fl ''subtract'' (subtract_func fl)) [a, b] = Inr (Num (fsub fl x y)) \<and>
      execute (ArithmeticCommand fl ''multiply'' (multiply_func fl)) [a, b] = Inr (Num (fmul fl x y)) \<and>
      execute (ArithmeticCommand fl ''divide'' (divide_func fl)) [a, b] =
        (if is_zero fl y then Inl (Exn ValueError ''Division by zero is not allowed'')
         else Inr (Num (ftruediv fl x y)))) \<and>
   (\<forall>c \<in> {ArithmeticCommand fl ''add'' (add_func fl),
           ArithmeticCommand fl ''subtract'' (subtract_func fl),
           ArithmeticCommand fl ''multiply'' (multiply_func fl),
           ArithmeticCommand fl ''divide'' (divide_func fl)}.
      (length args \<noteq> 2 \<or> (\<exists>m. str_to_float fl (args ! 0) = Inl m) \<or>
       (\<exists>m. str_to_float fl (args ! 1) = Inl m) \<longrightarrow>
         (\<exists>msg. execute c args = Inl (Exn ValueError msg))) \<and>
      (\<forall>e. execute c args = Inl e \<longrightarrow> exn_class_of e = ValueError))"
proof (intro conjI)
  show "\<forall>c \<in> {ArithmeticCommand fl ''add'' (add_func fl),
           ArithmeticCommand fl ''subtract'' (subtract_func fl),
           ArithmeticCommand fl ''multiply'' (multiply_func fl),
           ArithmeticCommand fl ''divide'' (divide_func fl)}.
      (length args \<noteq> 2 \<or> (\<exists>m. str_to_float fl (args ! 0) = Inl m) \<or>
       (\<exists>m. str_to_float fl (args ! 1) = Inl m) \<longrightarrow>
         (\<exists>msg. execute c args = Inl (Exn ValueError msg))) \<and>
      (\<forall>e. execute c args = Inl e \<longrightarrow> exn_class_of e = ValueError)"
    using arith_execute_bad_input [of args fl]
      arith_execute_ValueError [OF arith_funcs(1)]
      arith_execute_ValueError [OF arith_funcs(2)]
      arith_execute_ValueError [OF arith_funcs(3)]
      arith_execute_ValueError [OF arith_funcs(4)]
    by (auto simp: ArithmeticCommand_def)
next
  show "str_to_float fl a = Inr x \<and> str_to_float fl b = Inr y \<longrightarrow>
      execute (ArithmeticCommand fl ''add'' (add_func fl)) [a, b] = Inr (Num (fadd fl x y)) \<and>
      execute (ArithmeticCommand fl ''subtract'' (subtract_func fl)) [a, b] = Inr (Num (fsub fl x y)) \<and>
      execute (ArithmeticCommand fl ''multiply'' (multiply_func fl)) [a, b] = Inr (Num (fmul fl x y)) \<and>
      execute (ArithmeticCommand fl ''divide'' (divide_func fl)) [a, b] =
        (if is_zero fl y then Inl (Exn ValueError ''Division by zero is not allowed'')
         else Inr (Num (ftruediv fl x y)))"
    by (simp add: ArithmeticCommand_def arith_execute_values add_func_def subtract_func_def
        multiply_func_def divide_func_def)
qed (simp_all add: get_command_def CommandRegistry_eq lower_builtin)

theorem arithmetic_commands_witness:
  "execute (ArithmeticCommand toy_floats ''add'' (add_func toy_floats)) [''2'', ''3''] = Inr (Num 5) \<and>
   execute (ArithmeticCommand toy_floats ''divide'' (divide_func toy_floats)) [''10'', ''0''] =
     Inl (Exn ValueError ''Division by zero is not allowed'') \<and>
   (\<exists>msg. execute (ArithmeticCommand toy_floats ''add'' (add_func toy_floats)) [''2''] =
      Inl (Exn ValueError msg)) \<and>
   (\<exists>msg. execute (ArithmeticCommand toy_floats ''multiply'' (multiply_func toy_floats))
      [''2'', ''three''] = Inl (Exn ValueError msg))"
proof -
  have p: "str_to_float toy_floats ''2'' = Inr 2 \<and> str_to_float toy_floats ''3'' = Inr 3"
    by (simp add: toy_floats_def)
  have q: "str_to_float toy_floats ''10'' = Inr 10 \<and> str_to_float toy_floats ''0'' = Inr 0"
    by (simp add: toy_floats_def)
  have z: "is_zero toy_floats 0" "fadd toy_floats 2 3 = 5"
    by (simp_all add: toy_floats_def)
  have l: "length [''2''] \<noteq> 2" by simp
  have b: "\<exists>m. str_to_float toy_floats ([''2'', ''three''] ! 1) = Inl m"
    by (simp add: toy_floats_def)
  show ?thesis
    using p q z l b
      arithmetic_commands [of toy_floats no_text "''2''" 2 "''3''" 3 "[''2'']"]
      arithmetic_commands [of toy_floats no_text "''10''" 10 "''0''" 0 "[''2'', ''three'']"]
    by simp
qed

section \<open>Registry keys and lookup\<close>

lemma last_named_name: "last_named k cmds = Some c \<Longrightarrow> get_name c = Inr k"
proof -
  assume a: "last_named k cmds = Some c"
  then have ne: "filter (\<lambda>c. get_name c = Inr k) cmds \<noteq> []"
    and c: "c = last (filter (\<lambda>c. get_name c = Inr k) cmds)"
    by (auto simp: last_named_def split: list.splits)
  from ne have "last (filter (\<lambda>c. get_name c = Inr k) cmds) \<in>
      set (filter (\<lambda>c. get_name c = Inr k) cmds)"
    by (rule last_in_set)
  with c show ?thesis by simp
qed

lemma load_plugin_keys:
  assumes "\<forall>k c. plugin_commands s k = Some c \<longrightarrow> get_name c = Inr k"
  shows "\<forall>k c. plugin_commands (snd (load_plugin w n p s)) k = Some c \<longrightarrow> get_name c = Inr k"
  using assms
  by (auto simp: load_plugin_last_named dest: last_named_name split: option.splits)

lemma load_each_keys:
  assumes "\<forall>k c. plugin_commands s k = Some c \<longrightarrow> get_name c = Inr k"
    and "load_each w cands rs s = (Inr results, s')"
  shows "\<forall>k c. plugin_commands s' k = Some c \<longrightarrow> get_name c = Inr k"
  using assms
  by (auto simp: load_each_last_named [of w cands rs s results s'] dest: last_named_name
      split: option.splits)

lemma remove_commands_keys:
  "plugin_commands (snd (remove_commands cmds s)) k = Some c \<Longrightarrow> plugin_commands s k = Some c"
proof (induction cmds arbitrary: s)
  case Nil
  then show ?case by simp
next
  case (Cons cmd cmds)
  show ?case
  proof (cases "get_name cmd")
    case (Inl e)
    with Cons.prems show ?thesis by simp
  next
    case (Inr n)
    with Cons.prems Cons.IH show ?thesis
      by (fastforce split: if_splits)
  qed
qed

lemma unload_plugin_keys:
  assumes "plugin_commands (snd (unload_plugin w n s)) k = Some c"
  shows "plugin_commands s k = Some c"
proof (cases "loaded_plugins s n")
  case None
  with assms show ?thesis by (simp add: unload_plugin_def)
next
  case (Some pl)
  have handler: "\<And>e t. snd (unload_plugin_except w n e t) = t"
    by (simp add: unload_plugin_except_def bnd_call ret_def split: sum.splits)
  have eq: "plugin_commands (snd (unload_plugin w n s)) =
      plugin_commands (snd (unload_plugin_try w n pl s))"
    using Some
    by (simp add: unload_plugin_def except_Exception_def handler split: prod.splits sum.splits)
  have "plugin_commands (snd (unload_plugin_try w n pl s)) k = Some c \<longrightarrow>
      plugin_commands s k = Some c"
  proof (cases "cleanup pl")
    case (Inl e)
    then show ?thesis by (simp add: unload_plugin_try_def bnd_call_hook)
  next
    case cl: (Inr b)
    show ?thesis
    proof (cases "get_commands pl")
      case (Inl e)
      with cl show ?thesis by (simp add: unload_plugin_try_def bnd_call_hook bnd_call)
    next
      case (Inr cmds)
      obtain out s2 where rc:
        "remove_commands cmds (s\<lparr>hook_calls := hook_calls s @ [Cleanup n]\<rparr>) = (out, s2)"
        by (cases "remove_commands cmds (s\<lparr>hook_calls := hook_calls s @ [Cleanup n]\<rparr>)")
      have "plugin_commands (snd (unload_plugin_try w n pl s)) = plugin_commands s2"
        using cl Inr rc
        by (cases out)
           (simp_all add: unload_plugin_try_def bnd_call_hook bnd_call
              bnd_def [of "remove_commands cmds"] bnd_def [of "del_loaded_plugins w n"]
              bnd_def [of "del_plugin_info w n"] del_loaded_plugins_def del_plugin_info_def ret_def)
      with rc have "plugin_commands (snd (unload_plugin_try w n pl s)) =
          plugin_commands (snd (remove_commands cmds (s\<lparr>hook_calls := hook_calls s @ [Cleanup n]\<rparr>)))"
        by simp
      then show ?thesis
        using remove_commands_keys [of cmds "s\<lparr>hook_calls := hook_calls s @ [Cleanup n]\<rparr>" k c]
        by simp
    qed
  qed
  with assms eq show ?thesis by simp
qed

lemma CommandRegistry_keys:
  "CommandRegistry fl help_execute k = Some c \<Longrightarrow>
   get_name c = Inr k \<or> (k = ''quit'' \<and> c = ExitCommand)"
  by (auto simp: CommandRegistry_eq ArithmeticCommand_def HelpCommand_def ExitCommand_def
      lower_builtin split: if_splits)

lemma setup_plugin_commands_commands:
  "commands (snd (setup_plugin_commands w menu_execute r)) =
     (case load_all_plugins w (plugin_manager r) of
        (Inl e, pm) \<Rightarrow> commands r
      | (Inr load_results, pm) \<Rightarrow>
          (commands r ++ plugin_commands pm)(''menu'' \<mapsto> MenuCommand menu_execute))"
  by (simp add: setup_plugin_commands_def get_plugin_commands_def register_command_def
      MenuCommand_def split: prod.splits sum.splits)

lemma EnhancedCommandRegistry_keys:
  assumes "commands (snd (EnhancedCommandRegistry fl w d help_execute menu_execute)) k = Some c"
  shows "get_name c = Inr k \<or> (k = ''quit'' \<and> c = ExitCommand)"
proof -
  let ?pm0 = "PluginManager [] d :: 'a plugin_manager"
  obtain out pm where l: "load_all_plugins w ?pm0 = (out, pm)"
    by (cases "load_all_plugins w ?pm0")
  show ?thesis
  proof (cases out)
    case (Inl e)
    with assms l have "CommandRegistry fl help_execute k = Some c"
      by (simp add: EnhancedCommandRegistry_def setup_plugin_commands_commands)
    then show ?thesis by (rule CommandRegistry_keys)
  next
    case (Inr load_results)
    have inv0: "\<forall>k c. plugin_commands ?pm0 k = Some c \<longrightarrow> get_name c = Inr k"
      by (simp add: PluginManager_def)
    from l Inr obtain cands where
      "load_each w cands Map.empty ?pm0 = (Inr load_results, pm)"
      by (auto simp: load_all_plugins_def discover_plugins_def bnd_def split: sum.splits)
    from load_each_keys [OF inv0 this]
    have inv: "\<forall>k c. plugin_commands pm k = Some c \<longrightarrow> get_name c = Inr k" .
    from assms l Inr
    have "((CommandRegistry fl help_execute ++ plugin_commands pm)
             (''menu'' \<mapsto> MenuCommand menu_execute)) k = Some c"
      by (simp add: EnhancedCommandRegistry_def setup_plugin_commands_commands)
    then have "(k = ''menu'' \<and> c = MenuCommand menu_execute) \<or>
        plugin_commands pm k = Some c \<or> CommandRegistry fl help_execute k = Some c"
      by (cases "k = ''menu''") (simp_all only: fun_upd_apply map_add_Some_iff, auto)
    then consider "k = ''menu''" "c = MenuCommand menu_execute"
      | "plugin_commands pm k = Some c"
      | "CommandRegistry fl help_execute k = Some c"
      by blast
    then show ?thesis
    proof cases
      case 1
      then show ?thesis by (simp add: MenuCommand_def)
    next
      case 2
      with inv show ?thesis by blast
    next
      case 3
      then show ?thesis by (rule CommandRegistry_keys)
    qed
  qed
qed

text \<open>
  C9, as the code has it. Every key of the command registry is the \<open>get_name()\<close> of
  the command stored under it, as it is, but for the alias \<open>quit\<close>, under which the exit
  command is stored beside its own name \<open>exit\<close>. That holds of the registry that
  \<open>EnhancedCommandRegistry\<close> builds, with the plugins' commands in it, because it holds
  of the manager's \<open>plugin_commands\<close> after every load and unload, and every
  \<open>register_command\<close> keeps it. Nothing lower-cases a key; the keys of the built-in
  registry are lower-case. Lookup lower-cases the name it is given: \<open>get_command(name)\<close>
  is the entry stored under \<open>name.lower()\<close>.
\<close>

theorem registry_keys_verbatim:
  "(\<forall>k c. commands (snd (EnhancedCommandRegistry fl w default_plugin_dir help_execute menu_execute)) k
            = Some c \<longrightarrow>
      get_name c = Inr k \<or> (k = ''quit'' \<and> c = ExitCommand)) \<and>
   ((\<forall>k c. plugin_commands s k = Some c \<longrightarrow> get_name c = Inr k) \<longrightarrow>
      (\<forall>k c. plugin_commands (snd (load_plugin w n p s)) k = Some c \<longrightarrow> get_name c = Inr k) \<and>
      (\<forall>k c. plugin_commands (snd (unload_plugin w n s)) k = Some c \<longrightarrow> get_name c = Inr k)) \<and>
   ((\<forall>k c. cs k = Some c \<longrightarrow> get_name c = Inr k \<or> (k = ''quit'' \<and> c = ExitCommand)) \<longrightarrow>
      (\<forall>k c. snd (register_command cmd cs) k = Some c \<longrightarrow>
         get_name c = Inr k \<or> (k = ''quit'' \<and> c = ExitCommand))) \<and>
   (\<forall>k \<in> dom (CommandRegistry fl help_execute). lower k = k) \<and>
   get_command cs name = cs (lower name)"
proof (intro conjI impI)
  show "\<forall>k c. commands (snd (EnhancedCommandRegistry fl w default_plugin_dir help_execute menu_execute)) k
            = Some c \<longrightarrow>
      get_name c = Inr k \<or> (k = ''quit'' \<and> c = ExitCommand)"
    using EnhancedCommandRegistry_keys by blast
next
  assume "\<forall>k c. plugin_commands s k = Some c \<longrightarrow> get_name c = Inr k"
  then show "\<forall>k c. plugin_commands (snd (load_plugin w n p s)) k = Some c \<longrightarrow> get_name c = Inr k"
    by (rule load_plugin_keys)
next
  assume "\<forall>k c. plugin_commands s k = Some c \<longrightarrow> get_name c = Inr k"
  then show "\<forall>k c. plugin_commands (snd (unload_plugin w n s)) k = Some c \<longrightarrow> get_name c = Inr k"
    using unload_plugin_keys by blast
next
  assume "\<forall>k c. cs k = Some c \<longrightarrow> get_name c = Inr k \<or> (k = ''quit'' \<and> c = ExitCommand)"
  then show "\<forall>k c. snd (register_command cmd cs) k = Some c \<longrightarrow>
         get_name c = Inr k \<or> (k = ''quit'' \<and> c = ExitCommand)"
    by (auto simp: register_command_def split: sum.splits if_splits)
next
  show "\<forall>k \<in> dom (CommandRegistry fl help_execute). lower k = k"
    by (auto simp: CommandRegistry_eq lower_builtin split: if_splits)
next
  show "get_command cs name = cs (lower name)"
    by (simp add: get_command_def)
qed

theorem registry_keys_verbatim_witness:
  "commands (snd (EnhancedCommandRegistry toy_floats stats_world ''/plugins'' no_text no_text)) ''mean'' =
     Some (named_command ''mean'' ''mean of B'') \<and>
   get_name (named_command ''mean'' ''mean of B'') = Inr ''mean'' \<and>
   commands (snd (EnhancedCommandRegistry toy_floats stats_world ''/plugins'' no_text no_text)) ''quit'' =
     Some ExitCommand \<and>
   get_name (ExitCommand :: int command) = Inr ''exit'' \<and>
   get_command (commands (snd (EnhancedCommandRegistry toy_floats stats_world ''/plugins'' no_text no_text)))
     ''MeAn'' = Some (named_command ''mean'' ''mean of B'') \<and>
   plugin_commands (snd (load_plugin stats_world ''stats_a'' ''/plugins/stats_a.py'' manager0)) ''median'' =
     Some (named_command ''median'' ''median of A'') \<and>
   get_name (named_command ''median'' ''median of A'') = Inr ''median'' \<and>
   lower ''add'' = ''add''"
proof -
  let ?r = "snd (EnhancedCommandRegistry toy_floats stats_world ''/plugins'' no_text no_text)"
  let ?s = "snd (load_plugin stats_world ''stats_a'' ''/plugins/stats_a.py'' manager0)"
  note t = registry_keys_verbatim [of toy_floats stats_world "''/plugins''" no_text no_text
      manager0 "''stats_a''" "''/plugins/stats_a.py''" "commands ?r"
      "named_command ''mean'' ''mean of B''" "''MeAn''"]
  have m: "commands ?r ''mean'' = Some (named_command ''mean'' ''mean of B'')"
    and q: "commands ?r ''quit'' = Some ExitCommand"
    by (simp_all add: EnhancedCommandRegistry_def setup_plugin_commands_def
        get_plugin_commands_def register_command_def MenuCommand_def CommandRegistry_eq
        load_defs py_defs example_defs map_add_def)
  have l: "lower ''MeAn'' = ''mean''"
    by (simp add: lower_def lower_char_def)
  have e: "\<forall>k c. plugin_commands manager0 k = Some c \<longrightarrow> get_name c = Inr k"
    by (simp add: manager0_def PluginManager_def)
  have d: "plugin_commands ?s ''median'' = Some (named_command ''median'' ''median of A'')"
    by (simp add: load_defs py_defs example_defs)
  have a: "''add'' \<in> dom (CommandRegistry toy_floats no_text)"
    by (simp add: CommandRegistry_eq)
  have x: "(''quit'' :: string) \<noteq> ''mean''" "(''quit'' :: string) \<noteq> ''median''"
    by simp_all
  from t m x have "get_name (named_command ''mean'' ''mean of B'') = Inr ''mean''"
    by blast
  moreover from t e d have "get_name (named_command ''median'' ''median of A'') = Inr ''median''"
    by blast
  moreover from t have "get_command (commands ?r) ''MeAn'' = commands ?r (lower ''MeAn'')"
    by blast
  moreover from t a have "lower ''add'' = ''add''"
    by blast
  moreover have "get_name (ExitCommand :: int command) = Inr ''exit''"
    by (simp add: ExitCommand_def)
  ultimately show ?thesis
    using m q d l by simp
qed

text \<open>
  As stated, C9 fails: the plugin command below reports the name \<open>Mean2\<close>. The
  enhanced registry stores it under \<open>Mean2\<close>, which is not its lower-cased name, and no
  lookup finds it, whatever the casing.
\<close>

theorem registry_key_not_lowered:
  "fst (EnhancedCommandRegistry toy_floats
          (plugins_world [(''shouting.py'', Inr (module_with (Inr shouting_plugin)))])
          ''/plugins'' no_text no_text) = Inr () \<and>
   commands shouting_registry ''Mean2'' = Some (named_command ''Mean2'' ''Mean2 <numbers>'') \<and>
   lower ''Mean2'' = ''mean2'' \<and>
   commands shouting_registry ''mean2'' = None \<and>
   get_command (commands shouting_registry) ''Mean2'' = None \<and>
   get_command (commands shouting_registry) ''mean2'' = None \<and>
   get_command (commands shouting_registry) ''MEAN2'' = None"
  by (simp add: shouting_registry_def EnhancedCommandRegistry_def setup_plugin_commands_def
      get_plugin_commands_def register_command_def MenuCommand_def CommandRegistry_eq
      get_command_def load_defs py_defs example_defs lower_def lower_char_def map_add_def)

section \<open>The exit sentinel and the history\<close>












end
